theory Spec2Isabelle
  imports Main "HOL-Library.Char_ord" "HOL-Library.List_Lexorder" "HOL-Library.Multiset"
begin

section \<open>Data frames and Python errors\<close>

text \<open>
  A pandas DataFrame, as the scripts use it: the column names in order and the rows, each
  row holding one cell per column. The cell type \<open>'v\<close> stands for what a cell can hold:
  a finite number, or something that is none (a NULL of SQLite, a NaN, an infinity, text). A
  frame read from SQLite or from a CSV file is rectangular, with distinct column names.
\<close>

record 'v frame =
  columns :: "string list"
  rows :: "'v list list"

text \<open>
  The exceptions the three scripts can end with. None of them is raised by a \<open>raise\<close> of
  the repository except \<open>ValueError_missing_columns\<close> (\<open>create_db._validate_columns\<close>);
  the others come from the calls the scripts make (\<open>open\<close>, \<open>joblib.load\<close>, \<open>df[cols]\<close>,
  \<open>train_test_split\<close>, \<open>Pipeline.fit\<close>/\<open>predict\<close>, the DataFrame constructor).
\<close>

datatype error =
    FileNotFoundError string
  | UnicodeDecodeError string
  | UnpicklingError string
  | DatabaseError string
  | KeyError "string list"
  | ValueError_missing_columns string "string list"
  | ValueError_empty_train_set nat
  | ValueError_no_samples
  | ValueError_input_contains_nan
  | ValueError_columns_are_missing "string list"
  | ValueError_length_mismatch nat nat

section \<open>create\_db.py: ingestion\<close>

definition SCHEMA_TRAIN :: "string list" where
  "SCHEMA_TRAIN =
     [''lat'', ''lon'', ''foot_traffic'', ''rent_per_sqm'', ''competition'',
      ''median_income'', ''office_density'', ''weekend_activity'',
      ''events_per_month'', ''coffee_price'', ''promo_spend'', ''profit'']"

definition SCHEMA_CAND :: "string list" where
  "SCHEMA_CAND =
     [''lat'', ''lon'', ''foot_traffic'', ''rent_per_sqm'', ''competition'',
      ''median_income'', ''office_density'', ''weekend_activity'',
      ''events_per_month'', ''coffee_price'', ''promo_spend'']"

definition REQUIRED_TRAIN :: "string set" where
  "REQUIRED_TRAIN =
     {''lat'', ''lon'', ''foot_traffic'', ''rent_per_sqm'', ''competition'',
      ''median_income'', ''office_density'', ''weekend_activity'',
      ''events_per_month'', ''coffee_price'', ''promo_spend'', ''profit''}"

definition REQUIRED_CAND :: "string set" where
  "REQUIRED_CAND = REQUIRED_TRAIN - {''profit''}"

text \<open>
  \<open>_validate_columns\<close>: the missing names are \<open>required - set(df.columns)\<close>; when there are
  any, a ValueError carries the table name and \<open>sorted(missing)\<close>.
\<close>

definition validate_columns :: "'v frame \<Rightarrow> string set \<Rightarrow> string \<Rightarrow> error + unit" where
  "validate_columns df required table =
     (let missing = required - set (columns df)
      in if missing \<noteq> {} then Inl (ValueError_missing_columns table (sorted_list_of_set missing))
         else Inr ())"

text \<open>
  The SQLite database is a map from table names to tables; the CSV files on disk are a map
  from paths to the frames \<open>pd.read_csv\<close> parses them into.
\<close>

type_synonym 'v database = "string \<rightharpoonup> 'v frame"

definition load_csv_to_db ::
  "(string \<rightharpoonup> 'v frame) \<Rightarrow> string \<Rightarrow> string \<Rightarrow> 'v database \<Rightarrow> error option \<times> 'v database" where
  "load_csv_to_db csvs csv_path table con =
     (case csvs csv_path of
        None \<Rightarrow> (Some (FileNotFoundError csv_path), con)
      | Some df \<Rightarrow>
          (let required = (if table = ''locations_train'' then REQUIRED_TRAIN else REQUIRED_CAND)
           in case validate_columns df required table of
                Inl e \<Rightarrow> (Some e, con)
              | Inr _ \<Rightarrow> (None, con(table \<mapsto> df))))"

text \<open>
  \<open>con.execute(SCHEMA_...)\<close> is \<open>CREATE TABLE IF NOT EXISTS\<close>: an absent table is created
  empty with the schema's columns, an existing one is left alone. The statement is DDL, which
  Python's sqlite3 runs outside any transaction, so the rollback that leaving the \<open>with\<close>
  block on an exception performs does not undo it.
\<close>

definition create_table_if_not_exists :: "string \<Rightarrow> string list \<Rightarrow> 'v database \<Rightarrow> 'v database" where
  "create_table_if_not_exists table cols con =
     (case con table of
        None \<Rightarrow> con(table \<mapsto> \<lparr>columns = cols, rows = []\<rparr>)
      | Some _ \<Rightarrow> con)"

definition create_db_main ::
  "(string \<rightharpoonup> 'v frame) \<Rightarrow> string \<Rightarrow> string \<Rightarrow> 'v database \<Rightarrow> error option \<times> 'v database" where
  "create_db_main csvs train candidates con0 =
     (let con1 = create_table_if_not_exists ''locations_train'' SCHEMA_TRAIN con0;
          con2 = create_table_if_not_exists ''locations_candidates'' SCHEMA_CAND con1
      in case load_csv_to_db csvs train ''locations_train'' con2 of
           (Some e, con3) \<Rightarrow> (Some e, con3)
         | (None, con3) \<Rightarrow> load_csv_to_db csvs candidates ''locations_candidates'' con3)"

text \<open>The set of names \<open>_load_csv_to_db\<close> requires of a table (the conditional of its second line).\<close>

definition required_for :: "string \<Rightarrow> string set" where
  "required_for table = (if table = ''locations_train'' then REQUIRED_TRAIN else REQUIRED_CAND)"

section \<open>The feature lists of the two stages\<close>

text \<open>\<open>train_regression.FEATURES\<close>, \<open>train_regression.TARGET\<close> and \<open>score_new_sites.FEATURES\<close>.\<close>

definition train_FEATURES :: "string list" where
  "train_FEATURES =
     [''foot_traffic'', ''rent_per_sqm'', ''competition'', ''median_income'', ''office_density'',
      ''weekend_activity'', ''events_per_month'', ''coffee_price'', ''promo_spend'',
      ''demand_adj'', ''wknd_traffic'', ''price_income'', ''promo_comp_adj'']"

definition TARGET :: string where
  "TARGET = ''profit''"

definition score_FEATURES :: "string list" where
  "score_FEATURES =
     [''foot_traffic'', ''rent_per_sqm'', ''competition'', ''median_income'', ''office_density'',
      ''weekend_activity'', ''events_per_month'', ''coffee_price'', ''promo_spend'',
      ''demand_adj'', ''wknd_traffic'', ''price_income'', ''promo_comp_adj'']"

section \<open>DataFrame operations\<close>

fun index_of :: "'a list \<Rightarrow> 'a \<Rightarrow> nat" where
  "index_of [] c = 0"
| "index_of (x # xs) c = (if x = c then 0 else Suc (index_of xs c))"

text \<open>One row restricted to the named columns, in the order of the names.\<close>

definition project_row :: "string list \<Rightarrow> string list \<Rightarrow> 'v list \<Rightarrow> 'v list" where
  "project_row all_cols cols r = map (\<lambda>c. r ! index_of all_cols c) cols"

text \<open>
  \<open>df[cols]\<close> with a list of names: a KeyError naming the absent ones when any is absent,
  otherwise the frame of those columns in the order asked for, rows in their order.
\<close>

definition select_columns :: "'v frame \<Rightarrow> string list \<Rightarrow> error + 'v frame" where
  "select_columns df cols =
     (let absent = filter (\<lambda>c. c \<notin> set (columns df)) cols
      in if absent \<noteq> [] then Inl (KeyError absent)
         else Inr \<lparr>columns = cols, rows = map (project_row (columns df) cols) (rows df)\<rparr>)"

text \<open>\<open>df[name]\<close> with one name: the column as a Series, here the list of its cells.\<close>

definition get_column :: "'v frame \<Rightarrow> string \<Rightarrow> error + 'v list" where
  "get_column df c =
     (if c \<notin> set (columns df) then Inl (KeyError [c])
      else Inr (map (\<lambda>r. r ! index_of (columns df) c) (rows df)))"

text \<open>
  \<open>df[name] = array\<close> for a name the frame does not have yet: the array becomes the last
  column, cell \<open>i\<close> in row \<open>i\<close>; pandas raises ValueError when the lengths differ.
\<close>

definition assign_column :: "'v frame \<Rightarrow> string \<Rightarrow> 'v list \<Rightarrow> error + 'v frame" where
  "assign_column df c vals =
     (if length vals \<noteq> length (rows df)
      then Inl (ValueError_length_mismatch (length vals) (length (rows df)))
      else Inr \<lparr>columns = columns df @ [c], rows = map2 (\<lambda>r v. r @ [v]) (rows df) vals\<rparr>)"

section \<open>The scikit-learn operations the stages call\<close>

text \<open>
  The numerical routines are parameters of the model: a record of functions, one per library
  routine, over the cell type \<open>'v\<close>, the fitted scaler state \<open>'s\<close> and the fitted
  regressor \<open>'m\<close>. \<open>permutation seed n\<close> is \<open>RandomState(seed).permutation(n)\<close>;
  \<open>scaler_fit\<close>/\<open>scaler_transform\<close> are StandardScaler's (the transform works row by row);
  \<open>enet_fit\<close>/\<open>enet_predict\<close>/\<open>coef\<close> are those of
  \<open>ElasticNet(alpha=0.05, l1_ratio=0.20, random_state=42)\<close> (prediction works row by row);
  \<open>argsort\<close> is numpy's \<open>argsort(kind='quicksort')\<close>, ascending. \<open>finite_cell\<close> tells
  whether a cell is a finite number, which is what scikit-learn's input validation asks of
  every cell it is given.
\<close>

record ('v, 's, 'm) sklearn =
  permutation :: "nat \<Rightarrow> nat \<Rightarrow> nat list"
  scaler_fit :: "'v list list \<Rightarrow> 's"
  scaler_transform :: "'s \<Rightarrow> 'v list \<Rightarrow> 'v list"
  enet_fit :: "'v list list \<Rightarrow> 'v list \<Rightarrow> 'm"
  enet_predict :: "'m \<Rightarrow> 'v list \<Rightarrow> 'v"
  coef :: "'m \<Rightarrow> 'v list"
  r2_score :: "'v list \<Rightarrow> 'v list \<Rightarrow> 'v"
  mean_absolute_error :: "'v list \<Rightarrow> 'v list \<Rightarrow> 'v"
  argsort :: "'v list \<Rightarrow> nat list"
  finite_cell :: "'v \<Rightarrow> bool"

text \<open>
  The fitted \<open>Pipeline([("pre", ColumnTransformer([("num", StandardScaler(), FEATURES)],
  remainder="drop")), ("model", ElasticNet(...))])\<close>: the column names the transformer was
  given, the fitted scaler and the fitted regressor.
\<close>

record ('s, 'm) pipeline =
  pre_columns :: "string list"
  pre_scaler :: 's
  model :: 'm

text \<open>
  The ColumnTransformer picks its columns by name from the frame it is given: a ValueError
  ("columns are missing") when one is absent. scikit-learn's input validation refuses an
  array of no rows ("Found array with 0 sample(s) ... while a minimum of 1 is required").
\<close>

definition column_transformer_select ::
  "string list \<Rightarrow> 'v frame \<Rightarrow> error + 'v list list" where
  "column_transformer_select cols X =
     (let absent = filter (\<lambda>c. c \<notin> set (columns X)) cols
      in if absent \<noteq> [] then Inl (ValueError_columns_are_missing absent)
         else if rows X = [] then Inl ValueError_no_samples
         else Inr (map (project_row (columns X) cols) (rows X)))"

text \<open>
  Fitting and predicting validate their input: the regressor raises ValueError ("Input
  contains NaN", "Input contains infinity", or a failed conversion to float) when a cell of
  the selected columns, or at fitting a label, is not a finite number. The cells of columns
  the transformer drops are not looked at.
\<close>

definition all_finite :: "('v, 's, 'm) sklearn \<Rightarrow> 'v list list \<Rightarrow> bool" where
  "all_finite lib Xs = list_all (list_all (finite_cell lib)) Xs"

definition pipe_fit ::
  "('v, 's, 'm) sklearn \<Rightarrow> string list \<Rightarrow> 'v frame \<Rightarrow> 'v list \<Rightarrow> error + ('s, 'm) pipeline" where
  "pipe_fit lib cols X y =
     (case column_transformer_select cols X of
        Inl e \<Rightarrow> Inl e
      | Inr Xs \<Rightarrow>
          if \<not> all_finite lib Xs \<or> \<not> list_all (finite_cell lib) y
          then Inl ValueError_input_contains_nan
          else
            (let sc = scaler_fit lib Xs;
                 Z = map (scaler_transform lib sc) Xs
             in Inr \<lparr>pre_columns = cols, pre_scaler = sc, model = enet_fit lib Z y\<rparr>))"

definition predict_row :: "('v, 's, 'm) sklearn \<Rightarrow> ('s, 'm) pipeline \<Rightarrow> 'v list \<Rightarrow> 'v" where
  "predict_row lib p r = enet_predict lib (model p) (scaler_transform lib (pre_scaler p) r)"

definition pipe_predict ::
  "('v, 's, 'm) sklearn \<Rightarrow> ('s, 'm) pipeline \<Rightarrow> 'v frame \<Rightarrow> error + 'v list" where
  "pipe_predict lib p X =
     (case column_transformer_select (pre_columns p) X of
        Inl e \<Rightarrow> Inl e
      | Inr Xs \<Rightarrow>
          if \<not> all_finite lib Xs then Inl ValueError_input_contains_nan
          else Inr (map (predict_row lib p) Xs))"

text \<open>
  \<open>train_test_split(X, y, test_size=0.25, random_state=seed)\<close>: with \<open>n\<close> rows,
  \<open>n_test = ceil(0.25 * n)\<close> and \<open>n_train = n - n_test\<close>; a ValueError when the training
  set would be empty; otherwise the first \<open>n_test\<close> indices of the seeded permutation are the
  evaluation partition and the next \<open>n_train\<close> the training partition.
\<close>

definition n_test_of :: "nat \<Rightarrow> nat" where
  "n_test_of n = (25 * n + 99) div 100"

definition test_indices :: "('v, 's, 'm) sklearn \<Rightarrow> nat \<Rightarrow> nat \<Rightarrow> nat list" where
  "test_indices lib seed n = take (n_test_of n) (permutation lib seed n)"

definition train_indices :: "('v, 's, 'm) sklearn \<Rightarrow> nat \<Rightarrow> nat \<Rightarrow> nat list" where
  "train_indices lib seed n =
     take (n - n_test_of n) (drop (n_test_of n) (permutation lib seed n))"

definition take_rows :: "'v frame \<Rightarrow> nat list \<Rightarrow> 'v frame" where
  "take_rows X idx = \<lparr>columns = columns X, rows = map (\<lambda>i. rows X ! i) idx\<rparr>"

definition train_test_split ::
  "('v, 's, 'm) sklearn \<Rightarrow> nat \<Rightarrow> 'v frame \<Rightarrow> 'v list \<Rightarrow>
     error + ('v frame \<times> 'v frame \<times> 'v list \<times> 'v list)" where
  "train_test_split lib seed X y =
     (let n = length (rows X)
      in if n - n_test_of n = 0 then Inl (ValueError_empty_train_set n)
         else Inr (take_rows X (train_indices lib seed n),
                   take_rows X (test_indices lib seed n),
                   map (\<lambda>i. y ! i) (train_indices lib seed n),
                   map (\<lambda>i. y ! i) (test_indices lib seed n)))"

section \<open>Files\<close>

text \<open>
  What a file holds: text, a CSV table, the JSON metrics (key and number), the
  feature-importance CSV (name and number per row), a chart, or a pickled pipeline. The file
  system is the set of directories and a map from paths to contents; only a path that is
  written changes.
\<close>

datatype ('v, 's, 'm) content =
    Text string
  | Csv "'v frame"
  | Json "(string \<times> 'v) list"
  | ImportanceCsv "(string \<times> 'v) list"
  | Png
  | Joblib "('s, 'm) pipeline"

record ('v, 's, 'm) filesystem =
  dirs :: "string set"
  files :: "string \<rightharpoonup> ('v, 's, 'm) content"

definition path_join :: "string \<Rightarrow> string \<Rightarrow> string" where
  "path_join d name = d @ ''/'' @ name"

text \<open>\<open>utils.ensure_outdir\<close>: the directory exists afterwards; no file is touched.\<close>

definition ensure_outdir :: "string \<Rightarrow> ('v, 's, 'm) filesystem \<Rightarrow> ('v, 's, 'm) filesystem" where
  "ensure_outdir p fs = fs\<lparr>dirs := insert p (dirs fs)\<rparr>"

definition write_file ::
  "string \<Rightarrow> string \<Rightarrow> ('v, 's, 'm) content \<Rightarrow> ('v, 's, 'm) filesystem \<Rightarrow> ('v, 's, 'm) filesystem" where
  "write_file d name c fs =
     fs\<lparr>dirs := insert d (dirs fs), files := (files fs)(path_join d name \<mapsto> c)\<rparr>"

text \<open>\<open>utils.save_csv\<close> and \<open>utils.save_json\<close> create the parent directory and write the file.\<close>

definition save_csv ::
  "'v frame \<Rightarrow> string \<Rightarrow> string \<Rightarrow> ('v, 's, 'm) filesystem \<Rightarrow> ('v, 's, 'm) filesystem" where
  "save_csv df d name fs = write_file d name (Csv df) fs"

definition save_json ::
  "(string \<times> 'v) list \<Rightarrow> string \<Rightarrow> string \<Rightarrow> ('v, 's, 'm) filesystem \<Rightarrow> ('v, 's, 'm) filesystem" where
  "save_json obj d name fs = write_file d name (Json obj) fs"

text \<open>The three plotting helpers of \<open>utils\<close> end in \<open>fig.savefig(out)\<close>: a chart file appears.\<close>

definition savefig :: "string \<Rightarrow> string \<Rightarrow> ('v, 's, 'm) filesystem \<Rightarrow> ('v, 's, 'm) filesystem" where
  "savefig d name fs = fs\<lparr>files := (files fs)(path_join d name \<mapsto> Png)\<rparr>"

definition joblib_dump ::
  "('s, 'm) pipeline \<Rightarrow> string \<Rightarrow> ('v, 's, 'm) filesystem \<Rightarrow> ('v, 's, 'm) filesystem" where
  "joblib_dump p path fs = fs\<lparr>files := (files fs)(path \<mapsto> Joblib p)\<rparr>"

text \<open>\<open>joblib.load\<close>: FileNotFoundError for an absent path; a file that is no pickle does not load.\<close>

definition joblib_load :: "('v, 's, 'm) filesystem \<Rightarrow> string \<Rightarrow> error + ('s, 'm) pipeline" where
  "joblib_load fs path =
     (case files fs path of
        None \<Rightarrow> Inl (FileNotFoundError path)
      | Some (Joblib p) \<Rightarrow> Inr p
      | Some _ \<Rightarrow> Inl (UnpicklingError path))"

text \<open>\<open>open(sql_path, "r", encoding="utf-8").read()\<close>.\<close>

definition read_text :: "('v, 's, 'm) filesystem \<Rightarrow> string \<Rightarrow> error + string" where
  "read_text fs path =
     (case files fs path of
        None \<Rightarrow> Inl (FileNotFoundError path)
      | Some (Text t) \<Rightarrow> Inr t
      | Some _ \<Rightarrow> Inl (UnicodeDecodeError path))"

text \<open>
  The SQL views are outside the repository's Python: \<open>con.executescript(sql_text)\<close> followed
  by \<open>pd.read_sql_query("SELECT * FROM view;", con)\<close> is a function of the script's text and
  the view's name, giving the frame or the error the database raises.
\<close>

type_synonym 'v views = "string \<Rightarrow> string \<Rightarrow> error + 'v frame"

section \<open>score\_new\_sites.py: the scoring stage\<close>

definition run_scoring ::
  "('v, 's, 'm) sklearn \<Rightarrow> 'v views \<Rightarrow> string \<Rightarrow> string \<Rightarrow> string \<Rightarrow>
     ('v, 's, 'm) filesystem \<Rightarrow> error option \<times> ('v, 's, 'm) filesystem" where
  "run_scoring lib db sql_path model_path outdir fs0 =
     (let fs1 = ensure_outdir outdir fs0 in
      case read_text fs1 sql_path of Inl e \<Rightarrow> (Some e, fs1) | Inr sql_text \<Rightarrow>
      case db sql_text ''features_candidates'' of Inl e \<Rightarrow> (Some e, fs1) | Inr X_cand \<Rightarrow>
      case joblib_load fs1 model_path of Inl e \<Rightarrow> (Some e, fs1) | Inr pipe \<Rightarrow>
      case select_columns X_cand score_FEATURES of Inl e \<Rightarrow> (Some e, fs1) | Inr XF \<Rightarrow>
      case pipe_predict lib pipe XF of Inl e \<Rightarrow> (Some e, fs1) | Inr preds \<Rightarrow>
      case select_columns X_cand [''lat'', ''lon''] of Inl e \<Rightarrow> (Some e, fs1) | Inr scored0 \<Rightarrow>
      case assign_column scored0 ''predicted_profit'' preds of Inl e \<Rightarrow> (Some e, fs1) | Inr scored \<Rightarrow>
      (None, save_csv scored outdir ''scored_candidates.csv'' fs1))"

text \<open>
  The prediction record of one candidate row: its \<open>lat\<close> and \<open>lon\<close> cells and the value the
  pipeline predicts from the row's cells in the pipeline's own columns.
\<close>

definition prediction_record ::
  "('v, 's, 'm) sklearn \<Rightarrow> ('s, 'm) pipeline \<Rightarrow> string list \<Rightarrow> 'v list \<Rightarrow> 'v list" where
  "prediction_record lib p cols r =
     [r ! index_of cols ''lat'', r ! index_of cols ''lon'',
      predict_row lib p (project_row cols (pre_columns p) r)]"

text \<open>Every cell of the frame in the columns the pipeline was fitted on is a finite number.\<close>

definition finite_features :: "('v, 's, 'm) sklearn \<Rightarrow> ('s, 'm) pipeline \<Rightarrow> 'v frame \<Rightarrow> bool" where
  "finite_features lib p X =
     all_finite lib (map (project_row (columns X) (pre_columns p)) (rows X))"

section \<open>train\_regression.py: the training stage\<close>

text \<open>
  \<open>Series.sort_values(ascending=False)\<close> asks pandas' \<open>nargsort\<close> for the order: the values
  and their positions are reversed, argsorted ascending with the default kind (quicksort),
  and the resulting order is reversed again.
\<close>

definition nargsort_descending :: "('v, 's, 'm) sklearn \<Rightarrow> 'v list \<Rightarrow> nat list" where
  "nargsort_descending lib items =
     (let non_nans = rev items;
          non_nan_idx = rev [0..<length items];
          indexer = map (\<lambda>j. non_nan_idx ! j) (argsort lib non_nans)
      in rev indexer)"

text \<open>
  The importance table: one row per feature with its coefficient (the DataFrame constructor
  raises when the two columns differ in length), reindexed by the descending order of the
  absolute coefficients.
\<close>

definition feature_importance ::
  "('v::linordered_idom, 's, 'm) sklearn \<Rightarrow> 'v list \<Rightarrow> error + (string \<times> 'v) list" where
  "feature_importance lib coefs =
     (if length coefs \<noteq> length train_FEATURES
      then Inl (ValueError_length_mismatch (length coefs) (length train_FEATURES))
      else Inr (map (\<lambda>i. (train_FEATURES ! i, coefs ! i))
                  (nargsort_descending lib (map abs coefs))))"

text \<open>
  \<open>run_training\<close> in three parts, in the order of its lines. \<open>read_view\<close> (lines
  43-49): the SQL file is read and the view queried. \<open>fit_and_evaluate\<close> (lines 51-74):
  features and label are taken, the rows are split, the pipeline is fitted on the training
  partition and the metrics are computed on the evaluation partition (the metric functions
  validate the held-out labels as the regressor validates cells). \<open>full_set_predictions\<close>
  (lines 77-80): the fitted pipeline predicts every row and the diagnostic table is built.
  \<open>run_training\<close> itself creates the directories first and writes each file where the
  source does: the metrics before the full-set pass, the artifact last.
\<close>

definition read_view ::
  "('v, 's, 'm) filesystem \<Rightarrow> 'v views \<Rightarrow> string \<Rightarrow> string \<Rightarrow> error + 'v frame" where
  "read_view fs db sql_path view =
     (case read_text fs sql_path of Inl e \<Rightarrow> Inl e | Inr sql_text \<Rightarrow> db sql_text view)"

definition fit_and_evaluate ::
  "('v, 's, 'm) sklearn \<Rightarrow> 'v frame \<Rightarrow>
     error + ('v frame \<times> 'v list \<times> ('s, 'm) pipeline \<times> (string \<times> 'v) list)" where
  "fit_and_evaluate lib train_df =
     (case select_columns train_df train_FEATURES of Inl e \<Rightarrow> Inl e | Inr X \<Rightarrow>
      case get_column train_df TARGET of Inl e \<Rightarrow> Inl e | Inr y \<Rightarrow>
      case train_test_split lib 42 X y of Inl e \<Rightarrow> Inl e
      | Inr (X_train, X_test, y_train, y_test) \<Rightarrow>
      case pipe_fit lib train_FEATURES X_train y_train of Inl e \<Rightarrow> Inl e | Inr pipe \<Rightarrow>
      case pipe_predict lib pipe X_test of Inl e \<Rightarrow> Inl e | Inr y_pred_test \<Rightarrow>
      if \<not> list_all (finite_cell lib) y_test then Inl ValueError_input_contains_nan
      else Inr (X, y, pipe,
                [(''r2'', r2_score lib y_test y_pred_test),
                 (''mae'', mean_absolute_error lib y_test y_pred_test)]))"

definition full_set_predictions ::
  "('v, 's, 'm) sklearn \<Rightarrow> ('s, 'm) pipeline \<Rightarrow> 'v frame \<Rightarrow> 'v frame \<Rightarrow> 'v list \<Rightarrow> error + 'v frame" where
  "full_set_predictions lib pipe train_df X y =
     (case pipe_predict lib pipe X of Inl e \<Rightarrow> Inl e | Inr y_pred_all \<Rightarrow>
      case select_columns train_df [''lat'', ''lon''] of Inl e \<Rightarrow> Inl e | Inr preds0 \<Rightarrow>
      case assign_column preds0 ''actual_profit'' y of Inl e \<Rightarrow> Inl e | Inr preds1 \<Rightarrow>
      assign_column preds1 ''predicted_profit'' y_pred_all)"

definition run_training ::
  "('v::linordered_idom, 's, 'm) sklearn \<Rightarrow> 'v views \<Rightarrow> string \<Rightarrow> string \<Rightarrow>
     ('v, 's, 'm) filesystem \<Rightarrow> error option \<times> ('v, 's, 'm) filesystem" where
  "run_training lib db sql_path outdir fs0 =
     (let fs1 = ensure_outdir outdir fs0;
          charts_dir = path_join outdir ''charts'';
          fs2 = ensure_outdir charts_dir fs1 in
      case read_view fs2 db sql_path ''features_train'' of Inl e \<Rightarrow> (Some e, fs2) | Inr train_df \<Rightarrow>
      case fit_and_evaluate lib train_df of Inl e \<Rightarrow> (Some e, fs2)
      | Inr (X, y, pipe, metrics) \<Rightarrow>
      (let fs3 = save_json metrics outdir ''metrics.json'' fs2 in
       case full_set_predictions lib pipe train_df X y of Inl e \<Rightarrow> (Some e, fs3) | Inr preds \<Rightarrow>
       (let fs4 = save_csv preds outdir ''predictions_train.csv'' fs3;
            fs5 = savefig charts_dir ''actual_vs_predicted.png'' fs4;
            fs6 = savefig charts_dir ''residuals_hist.png'' fs5 in
        case feature_importance lib (coef lib (model pipe)) of Inl e \<Rightarrow> (Some e, fs6)
        | Inr importance \<Rightarrow>
        (let fs7 = write_file outdir ''feature_importance.csv'' (ImportanceCsv importance) fs6;
             fs8 = savefig charts_dir ''feature_importance.png'' fs7
         in (None, joblib_dump pipe (path_join outdir ''model.joblib'') fs8)))))"

text \<open>
  The values \<open>run_training\<close> computes on the way, as functions of the frame read from
  \<open>features_train\<close>: \<open>X\<close> and \<open>y\<close> (lines 54-55), and the two partitions that
  \<open>train_test_split\<close> returns for them (lines 57-59).
\<close>

definition feature_frame :: "'v frame \<Rightarrow> 'v frame" where
  "feature_frame df =
     \<lparr>columns = train_FEATURES,
      rows = map (project_row (columns df) train_FEATURES) (rows df)\<rparr>"

definition label_column :: "'v frame \<Rightarrow> 'v list" where
  "label_column df = map (\<lambda>r. r ! index_of (columns df) TARGET) (rows df)"

definition training_frame :: "('v, 's, 'm) sklearn \<Rightarrow> 'v frame \<Rightarrow> 'v frame" where
  "training_frame lib df =
     take_rows (feature_frame df) (train_indices lib 42 (length (rows df)))"

definition training_labels :: "('v, 's, 'm) sklearn \<Rightarrow> 'v frame \<Rightarrow> 'v list" where
  "training_labels lib df =
     map (\<lambda>i. label_column df ! i) (train_indices lib 42 (length (rows df)))"

definition evaluation_frame :: "('v, 's, 'm) sklearn \<Rightarrow> 'v frame \<Rightarrow> 'v frame" where
  "evaluation_frame lib df =
     take_rows (feature_frame df) (test_indices lib 42 (length (rows df)))"

definition evaluation_labels :: "('v, 's, 'm) sklearn \<Rightarrow> 'v frame \<Rightarrow> 'v list" where
  "evaluation_labels lib df =
     map (\<lambda>i. label_column df ! i) (test_indices lib 42 (length (rows df)))"

text \<open>
  What numpy promises of \<open>argsort\<close> for every kind: the result is a permutation of the
  positions that puts the values in ascending order. A stable kind moreover keeps equal
  values in the order of their positions, which makes the result the one of insertion sort;
  the default kind, quicksort, does not promise that.
\<close>

definition argsort_sorts :: "('v::linorder, 's, 'm) sklearn \<Rightarrow> bool" where
  "argsort_sorts lib \<longleftrightarrow>
     (\<forall>xs. mset (argsort lib xs) = mset [0..<length xs]
          \<and> sorted (map (\<lambda>i. xs ! i) (argsort lib xs)))"

definition argsort_stable :: "('v::linorder, 's, 'm) sklearn \<Rightarrow> bool" where
  "argsort_stable lib \<longleftrightarrow>
     (\<forall>xs. argsort lib xs = sort_key (\<lambda>i. xs ! i) [0..<length xs])"

section \<open>Concrete inputs\<close>

text \<open>Small tables, files and library routines on which the theorems below are exercised.\<close>

definition csv_without_rent :: "int frame" where
  "csv_without_rent =
     \<lparr>columns = [''lat'', ''lon'', ''foot_traffic'', ''competition'', ''median_income'',
                 ''office_density'', ''weekend_activity'', ''events_per_month'',
                 ''coffee_price'', ''promo_spend'', ''profit''],
      rows = [[50, 8, 120, 3, 40, 7, 2, 4, 3, 10, 900]]\<rparr>"

definition csv_train_ok :: "int frame" where
  "csv_train_ok =
     \<lparr>columns = [''lat'', ''lon'', ''foot_traffic'', ''rent_per_sqm'', ''competition'',
                 ''median_income'', ''office_density'', ''weekend_activity'',
                 ''events_per_month'', ''coffee_price'', ''promo_spend'', ''profit''],
      rows = [[50, 8, 120, 30, 3, 40, 7, 2, 4, 3, 10, 900]]\<rparr>"

definition csv_cand_short :: "int frame" where
  "csv_cand_short = \<lparr>columns = [''lat'', ''lon'', ''foot_traffic''], rows = [[50, 8, 120]]\<rparr>"

definition demo_csvs :: "string \<rightharpoonup> int frame" where
  "demo_csvs = [''train.csv'' \<mapsto> csv_train_ok, ''bad_train.csv'' \<mapsto> csv_without_rent,
                ''cand.csv'' \<mapsto> csv_cand_short]"

definition old_table :: "int frame" where
  "old_table = \<lparr>columns = [''lat''], rows = [[1], [2]]\<rparr>"

definition demo_lib :: "(int, int list, int list \<times> int) sklearn" where
  "demo_lib = \<lparr>
     permutation = (\<lambda>seed n. rev [0..<n]),
     scaler_fit = (\<lambda>Xs. hd Xs),
     scaler_transform = (\<lambda>s r. map2 (-) r s),
     enet_fit = (\<lambda>Z y. (map (\<lambda>j. sum_list (map (\<lambda>r. r ! j) Z)) [0..<length (hd Z)], hd y)),
     enet_predict = (\<lambda>m r. snd m + sum_list (map2 (*) (fst m) r)),
     coef = fst,
     r2_score = (\<lambda>y p. sum_list (map2 (-) y p)),
     mean_absolute_error = (\<lambda>y p. sum_list (map abs (map2 (-) y p))),
     argsort = (\<lambda>xs. sort_key (\<lambda>i. xs ! i) [0..<length xs]),
     finite_cell = (\<lambda>v. True)\<rparr>"

definition demo_pipe :: "(int list, int list \<times> int) pipeline" where
  "demo_pipe =
     \<lparr>pre_columns = train_FEATURES,
      pre_scaler = [3, 1, 3, 4, 6, 6, 8, 8, 9, 11, 11, 12, 14],
      model = ([- 3, 2, 0, 1, - 2, 0, - 2, 1, 0, - 2, 1, 0, - 2], 90)\<rparr>"

definition demo_cand :: "int frame" where
  "demo_cand =
     \<lparr>columns = [''lat'', ''lon''] @ score_FEATURES,
      rows = [[60, 5, 1, 2, 3, 4, 5, 6, 7, 8, 9, 10, 11, 12, 13],
              [61, 4, 4, 1, 3, 4, 6, 6, 8, 9, 9, 11, 12, 12, 14],
              [62, 3, 2, 2, 2, 5, 5, 7, 7, 8, 8, 10, 11, 13, 13]]\<rparr>"

definition demo_cand_extra :: "int frame" where
  "demo_cand_extra =
     \<lparr>columns = [''site_id'', ''lon'', ''lat''] @ rev score_FEATURES @ [''loyalty_index''],
      rows = [[900, 5, 60, 13, 12, 11, 10, 9, 8, 7, 6, 5, 4, 3, 2, 1, 77],
              [901, 4, 61, 14, 12, 12, 11, 9, 9, 8, 6, 6, 4, 3, 1, 4, 78],
              [902, 3, 62, 13, 13, 11, 10, 8, 8, 7, 7, 5, 5, 2, 2, 2, 79]]\<rparr>"


definition demo_cand_empty :: "int frame" where
  "demo_cand_empty = \<lparr>columns = [''lat'', ''lon''] @ score_FEATURES, rows = []\<rparr>"

definition demo_cand_empty_extra :: "int frame" where
  "demo_cand_empty_extra =
     \<lparr>columns = [''site_id'', ''lat'', ''lon''] @ score_FEATURES, rows = []\<rparr>"

definition demo_fs :: "(int, int list, int list \<times> int) filesystem" where
  "demo_fs = \<lparr>dirs = {}, files = [''queries.sql'' \<mapsto> Text ''CREATE VIEW ...'']\<rparr>"

definition demo_fs_model :: "(int, int list, int list \<times> int) filesystem" where
  "demo_fs_model =
     \<lparr>dirs = {''outputs''},
      files = [''queries.sql'' \<mapsto> Text ''CREATE VIEW ...'',
               ''outputs/model.joblib'' \<mapsto> Joblib demo_pipe]\<rparr>"

definition demo_views :: "'v frame \<Rightarrow> 'v frame \<Rightarrow> 'v views" where
  "demo_views train cand =
     (\<lambda>sql_text view.
        if view = ''features_train'' then Inr train
        else if view = ''features_candidates'' then Inr cand
        else Inl (DatabaseError view))"

definition demo_train :: "int frame" where
  "demo_train =
     \<lparr>columns = [''lat'', ''lon''] @ train_FEATURES @ [''profit''],
      rows = [[50, 8, 1, 2, 3, 4, 5, 6, 7, 8, 9, 10, 11, 12, 13, 100],
              [51, 9, 2, 2, 3, 5, 5, 6, 7, 9, 9, 10, 12, 12, 13, 120],
              [52, 7, 3, 1, 3, 4, 6, 6, 8, 8, 9, 11, 11, 12, 14, 90],
              [53, 6, 1, 1, 4, 4, 5, 7, 7, 8, 10, 10, 11, 13, 13, 110]]\<rparr>"

definition demo_train_empty :: "int frame" where
  "demo_train_empty = \<lparr>columns = [''lat'', ''lon''] @ train_FEATURES @ [''profit''], rows = []\<rparr>"

definition demo_train_single :: "int frame" where
  "demo_train_single =
     \<lparr>columns = [''lat'', ''lon''] @ train_FEATURES @ [''profit''],
      rows = [[50, 8, 1, 2, 3, 4, 5, 6, 7, 8, 9, 10, 11, 12, 13, 100]]\<rparr>"

definition demo_train_other_eval :: "int frame" where
  "demo_train_other_eval =
     \<lparr>columns = [''lat'', ''lon''] @ train_FEATURES @ [''profit''],
      rows = [[50, 8, 1, 2, 3, 4, 5, 6, 7, 8, 9, 10, 11, 12, 13, 100],
              [51, 9, 2, 2, 3, 5, 5, 6, 7, 9, 9, 10, 12, 12, 13, 120],
              [52, 7, 3, 1, 3, 4, 6, 6, 8, 8, 9, 11, 11, 12, 14, 90],
              [40, 2, 9, 9, 9, 9, 9, 9, 9, 9, 9, 9, 9, 9, 9, 500]]\<rparr>"

text \<open>The same routines with an argsort that sorts and is not stable.\<close>

definition demo_lib_unstable :: "(int, int list, int list \<times> int) sklearn" where
  "demo_lib_unstable =
     demo_lib\<lparr>argsort := (\<lambda>xs. sort_key (\<lambda>i. xs ! i) (rev [0..<length xs]))\<rparr>"

text \<open>An artifact fitted on a column that is not one of the scoring features.\<close>

definition demo_pipe_foreign :: "(int list, int list \<times> int) pipeline" where
  "demo_pipe_foreign =
     \<lparr>pre_columns = train_FEATURES @ [''loyalty_index''],
      pre_scaler = [3, 1, 3, 4, 6, 6, 8, 8, 9, 11, 11, 12, 14, 70],
      model = ([- 3, 2, 0, 1, - 2, 0, - 2, 1, 0, - 2, 1, 0, - 2, 1], 90)\<rparr>"

definition demo_fs_foreign :: "(int, int list, int list \<times> int) filesystem" where
  "demo_fs_foreign =
     \<lparr>dirs = {''outputs''},
      files = [''queries.sql'' \<mapsto> Text ''CREATE VIEW ...'',
               ''outputs/model.joblib'' \<mapsto> Joblib demo_pipe_foreign]\<rparr>"

text \<open>
  Cells that can be NULL: \<open>None\<close> is the NULL, \<open>Some n\<close> a number. The routines are kept
  as small as can be; the regressor's prediction is the sum of the row.
\<close>

definition demo_lib_null :: "(int option, unit, unit) sklearn" where
  "demo_lib_null = \<lparr>
     permutation = (\<lambda>seed n. rev [0..<n]),
     scaler_fit = (\<lambda>Xs. ()),
     scaler_transform = (\<lambda>s r. r),
     enet_fit = (\<lambda>Z y. ()),
     enet_predict = (\<lambda>m r. Some (sum_list (map (\<lambda>c. case c of None \<Rightarrow> 0 | Some n \<Rightarrow> n) r))),
     coef = (\<lambda>m. []),
     r2_score = (\<lambda>y p. None),
     mean_absolute_error = (\<lambda>y p. None),
     argsort = (\<lambda>xs. [0..<length xs]),
     finite_cell = (\<lambda>c. c \<noteq> None)\<rparr>"

definition demo_pipe_null :: "(unit, unit) pipeline" where
  "demo_pipe_null = \<lparr>pre_columns = train_FEATURES, pre_scaler = (), model = ()\<rparr>"

definition demo_fs_null :: "(int option, unit, unit) filesystem" where
  "demo_fs_null =
     \<lparr>dirs = {''outputs''},
      files = [''queries.sql'' \<mapsto> Text ''CREATE VIEW ...'',
               ''outputs/model.joblib'' \<mapsto> Joblib demo_pipe_null]\<rparr>"

definition demo_cand_null :: "int option frame" where
  "demo_cand_null =
     \<lparr>columns = [''lat'', ''lon''] @ score_FEATURES,
      rows = [map Some [60, 5, 1, 2, 3, 4, 5, 6, 7, 8, 9, 10, 11, 12, 13],
              [Some 61, Some 4, Some 4, None, Some 3, Some 4, Some 6, Some 6, Some 8, Some 9,
               Some 9, Some 11, Some 12, Some 12, Some 14],
              map Some [62, 3, 2, 2, 2, 5, 5, 7, 7, 8, 8, 10, 11, 13, 13]]\<rparr>"

definition demo_cand_null_coords :: "int option frame" where
  "demo_cand_null_coords =
     \<lparr>columns = [''lat'', ''lon''] @ score_FEATURES,
      rows = [[None, Some 5, Some 1, Some 2, Some 3, Some 4, Some 5, Some 6, Some 7, Some 8,
               Some 9, Some 10, Some 11, Some 12, Some 13]]\<rparr>"

section \<open>Basic facts about frames, files and the scoring stage\<close>

lemma files_ensure_outdir [simp]: "files (ensure_outdir p fs) = files fs"
  by (simp add: ensure_outdir_def)

lemma read_text_ensure_outdir [simp]: "read_text (ensure_outdir p fs) path = read_text fs path"
  by (simp add: read_text_def)

lemma joblib_load_ensure_outdir [simp]: "joblib_load (ensure_outdir p fs) path = joblib_load fs path"
  by (simp add: joblib_load_def)

lemma files_write_file:
  "files (write_file d name c fs) = (files fs)(path_join d name \<mapsto> c)"
  by (simp add: write_file_def)

lemma filter_absent_Nil: "filter (\<lambda>c. c \<notin> set have) cols = [] \<longleftrightarrow> set cols \<subseteq> set have"
  by (auto simp: filter_empty_conv)

lemma select_columns_present:
  "set cols \<subseteq> set (columns df) \<Longrightarrow>
     select_columns df cols =
       Inr \<lparr>columns = cols, rows = map (project_row (columns df) cols) (rows df)\<rparr>"
  by (simp add: select_columns_def Let_def filter_absent_Nil)


lemma pipe_predict_present:
  "set (pre_columns p) \<subseteq> set (columns X) \<Longrightarrow> rows X \<noteq> [] \<Longrightarrow> finite_features lib p X \<Longrightarrow>
     pipe_predict lib p X =
       Inr (map (\<lambda>r. predict_row lib p (project_row (columns X) (pre_columns p) r)) (rows X))"
  by (simp add: pipe_predict_def column_transformer_select_def Let_def filter_absent_Nil comp_def
        finite_features_def)

lemma pipe_predict_not_finite:
  "set (pre_columns p) \<subseteq> set (columns X) \<Longrightarrow> rows X \<noteq> [] \<Longrightarrow> \<not> finite_features lib p X \<Longrightarrow>
     pipe_predict lib p X = Inl ValueError_input_contains_nan"
  by (simp add: pipe_predict_def column_transformer_select_def Let_def filter_absent_Nil
        finite_features_def)


lemma pipe_predict_no_rows:
  "set (pre_columns p) \<subseteq> set (columns X) \<Longrightarrow> rows X = [] \<Longrightarrow>
     pipe_predict lib p X = Inl ValueError_no_samples"
  by (simp add: pipe_predict_def column_transformer_select_def Let_def filter_absent_Nil)

lemma joblib_load_present: "files fs path = Some (Joblib p) \<Longrightarrow> joblib_load fs path = Inr p"
  by (simp add: joblib_load_def)


lemma map2_snoc_maps:
  "map2 (\<lambda>r v. r @ [v]) (map f xs) (map g xs) = map (\<lambda>x. f x @ [g x]) xs"
  by (induction xs) simp_all

lemma nth_map_index_of: "c \<in> set xs \<Longrightarrow> map f xs ! index_of xs c = f c"
  by (induction xs) auto

lemma project_row_twice:
  "set inner \<subseteq> set mid \<Longrightarrow>
     project_row mid inner (project_row cols mid r) = project_row cols inner r"
  by (auto simp: project_row_def nth_map_index_of)

lemma finite_features_selected:
  "set (pre_columns p) \<subseteq> set mid \<Longrightarrow>
     finite_features lib p \<lparr>columns = mid, rows = map (project_row (columns X) mid) (rows X)\<rparr>
       = finite_features lib p X"
  by (simp add: finite_features_def comp_def project_row_twice)


lemma run_scoring_success:
  assumes sql: "read_text fs sql_path = Inr sql_text"
    and view: "db sql_text ''features_candidates'' = Inr X"
    and art: "files fs model_path = Some (Joblib p)"
    and compat: "set (pre_columns p) \<subseteq> set score_FEATURES"
    and feats: "set score_FEATURES \<subseteq> set (columns X)"
    and coords: "{''lat'', ''lon''} \<subseteq> set (columns X)"
    and nonempty: "rows X \<noteq> []"
    and finite: "finite_features lib p X"
  shows "run_scoring lib db sql_path model_path outdir fs =
           (None, save_csv \<lparr>columns = [''lat'', ''lon'', ''predicted_profit''],
                            rows = map (prediction_record lib p (columns X)) (rows X)\<rparr>
                    outdir ''scored_candidates.csv'' (ensure_outdir outdir fs))"
proof -
  let ?XF = "\<lparr>columns = score_FEATURES,
               rows = map (project_row (columns X) score_FEATURES) (rows X)\<rparr>"
  have sel: "select_columns X score_FEATURES = Inr ?XF"
    using feats by (rule select_columns_present)
  have pred: "pipe_predict lib p ?XF =
      Inr (map (\<lambda>r. predict_row lib p (project_row score_FEATURES (pre_columns p) r)) (rows ?XF))"
    using compat nonempty finite by (simp add: pipe_predict_present finite_features_selected)
  have ll: "select_columns X [''lat'', ''lon''] =
      Inr \<lparr>columns = [''lat'', ''lon''], rows = map (project_row (columns X) [''lat'', ''lon'']) (rows X)\<rparr>"
    using coords by (simp add: select_columns_present)
  show ?thesis
    unfolding run_scoring_def Let_def
    by (simp add: sql view joblib_load_present[OF art] sel pred ll assign_column_def
          map2_snoc_maps[where xs = "rows X"] comp_def prediction_record_def[abs_def]
          project_row_twice[OF compat] project_row_def[of _ "[''lat'', ''lon'']"])
qed

section \<open>Basic facts about the training stage\<close>

lemma read_view_ensure_outdir [simp]:
  "read_view (ensure_outdir p fs) db sql_path view = read_view fs db sql_path view"
  by (simp add: read_view_def)

lemma select_columns_Inr:
  "select_columns df cols = Inr X \<longleftrightarrow>
     set cols \<subseteq> set (columns df)
     \<and> X = \<lparr>columns = cols, rows = map (project_row (columns df) cols) (rows df)\<rparr>"
  by (auto simp: select_columns_def Let_def filter_absent_Nil)

lemma get_column_Inr:
  "get_column df c = Inr y \<longleftrightarrow>
     c \<in> set (columns df) \<and> y = map (\<lambda>r. r ! index_of (columns df) c) (rows df)"
  by (auto simp: get_column_def)

lemma assign_column_Inr:
  "assign_column df c vals = Inr df' \<longleftrightarrow>
     length vals = length (rows df)
     \<and> df' = \<lparr>columns = columns df @ [c], rows = map2 (\<lambda>r v. r @ [v]) (rows df) vals\<rparr>"
  by (auto simp: assign_column_def)

lemma select_columns_Inl:
  "select_columns df cols = Inl e \<longleftrightarrow>
     \<not> set cols \<subseteq> set (columns df)
     \<and> e = KeyError (filter (\<lambda>c. c \<notin> set (columns df)) cols)"
  by (auto simp: select_columns_def Let_def filter_absent_Nil)

lemma assign_column_Inl:
  "assign_column df c vals = Inl e \<longleftrightarrow>
     length vals \<noteq> length (rows df)
     \<and> e = ValueError_length_mismatch (length vals) (length (rows df))"
  by (auto simp: assign_column_def)

lemma train_test_split_Inr:
  "train_test_split lib seed X y = Inr r \<longleftrightarrow>
     length (rows X) - n_test_of (length (rows X)) \<noteq> 0
     \<and> r = (take_rows X (train_indices lib seed (length (rows X))),
            take_rows X (test_indices lib seed (length (rows X))),
            map (\<lambda>i. y ! i) (train_indices lib seed (length (rows X))),
            map (\<lambda>i. y ! i) (test_indices lib seed (length (rows X))))"
  by (auto simp: train_test_split_def Let_def)

lemma get_column_Inl:
  "get_column df c = Inl e \<longleftrightarrow> c \<notin> set (columns df) \<and> e = KeyError [c]"
  by (auto simp: get_column_def)

lemma train_test_split_Inl:
  "train_test_split lib seed X y = Inl e \<longleftrightarrow>
     length (rows X) - n_test_of (length (rows X)) = 0
     \<and> e = ValueError_empty_train_set (length (rows X))"
  by (auto simp: train_test_split_def Let_def)

lemma fit_and_evaluate_Inr:
  "fit_and_evaluate lib df = Inr (X, y, p, metrics) \<longleftrightarrow>
     set train_FEATURES \<subseteq> set (columns df) \<and> TARGET \<in> set (columns df)
     \<and> length (rows df) - n_test_of (length (rows df)) \<noteq> 0
     \<and> X = feature_frame df \<and> y = label_column df
     \<and> pipe_fit lib train_FEATURES (training_frame lib df) (training_labels lib df) = Inr p
     \<and> list_all (finite_cell lib) (evaluation_labels lib df)
     \<and> (\<exists>y_pred_test.
           pipe_predict lib p (evaluation_frame lib df) = Inr y_pred_test
         \<and> metrics = [(''r2'', r2_score lib (evaluation_labels lib df) y_pred_test),
                       (''mae'', mean_absolute_error lib (evaluation_labels lib df) y_pred_test)])"
  unfolding fit_and_evaluate_def
  by (auto simp: select_columns_Inr get_column_Inr train_test_split_Inr
        select_columns_Inl get_column_Inl train_test_split_Inl
        feature_frame_def label_column_def training_frame_def training_labels_def
        evaluation_frame_def evaluation_labels_def
      split: sum.splits prod.splits if_splits)

lemma full_set_predictions_Inr:
  "full_set_predictions lib p df X y = Inr preds \<longleftrightarrow>
     (\<exists>y_pred_all.
        pipe_predict lib p X = Inr y_pred_all
      \<and> {''lat'', ''lon''} \<subseteq> set (columns df)
      \<and> length y = length (rows df) \<and> length y_pred_all = length (rows df)
      \<and> preds = \<lparr>columns = [''lat'', ''lon'', ''actual_profit'', ''predicted_profit''],
                  rows = map2 (\<lambda>r v. r @ [v])
                           (map2 (\<lambda>r v. r @ [v])
                              (map (project_row (columns df) [''lat'', ''lon'']) (rows df)) y)
                           y_pred_all\<rparr>)"
  unfolding full_set_predictions_def
  by (auto simp: select_columns_Inr select_columns_Inl assign_column_Inr assign_column_Inl
      split: sum.splits)

text \<open>The file system a successful training run leaves behind.\<close>

lemma run_training_None:
  assumes "run_training lib db sql_path outdir fs = (None, fs')"
  shows "\<exists>df X y p metrics preds importance.
           read_view fs db sql_path ''features_train'' = Inr df
         \<and> fit_and_evaluate lib df = Inr (X, y, p, metrics)
         \<and> full_set_predictions lib p df X y = Inr preds
         \<and> feature_importance lib (coef lib (model p)) = Inr importance
         \<and> files fs' =
             (files fs)
               (path_join outdir ''metrics.json'' \<mapsto> Json metrics,
                path_join outdir ''predictions_train.csv'' \<mapsto> Csv preds,
                path_join (path_join outdir ''charts'') ''actual_vs_predicted.png'' \<mapsto> Png,
                path_join (path_join outdir ''charts'') ''residuals_hist.png'' \<mapsto> Png,
                path_join outdir ''feature_importance.csv'' \<mapsto> ImportanceCsv importance,
                path_join (path_join outdir ''charts'') ''feature_importance.png'' \<mapsto> Png,
                path_join outdir ''model.joblib'' \<mapsto> Joblib p)"
  using assms
  unfolding run_training_def Let_def
  by (auto simp: read_view_def save_json_def save_csv_def write_file_def savefig_def
        joblib_dump_def
      split: sum.splits prod.splits)

lemma training_files:
  assumes "files fs' =
             (files fs)
               (path_join outdir ''metrics.json'' \<mapsto> Json metrics,
                path_join outdir ''predictions_train.csv'' \<mapsto> Csv preds,
                path_join (path_join outdir ''charts'') ''actual_vs_predicted.png'' \<mapsto> Png,
                path_join (path_join outdir ''charts'') ''residuals_hist.png'' \<mapsto> Png,
                path_join outdir ''feature_importance.csv'' \<mapsto> ImportanceCsv importance,
                path_join (path_join outdir ''charts'') ''feature_importance.png'' \<mapsto> Png,
                path_join outdir ''model.joblib'' \<mapsto> Joblib p)"
  shows "files fs' (path_join outdir ''metrics.json'') = Some (Json metrics)"
    and "files fs' (path_join outdir ''predictions_train.csv'') = Some (Csv preds)"
    and "files fs' (path_join outdir ''feature_importance.csv'') = Some (ImportanceCsv importance)"
    and "files fs' (path_join outdir ''model.joblib'') = Some (Joblib p)"
  by (simp_all add: assms path_join_def)

lemma pipe_fit_pre_columns: "pipe_fit lib cols X y = Inr p \<Longrightarrow> pre_columns p = cols"
  by (auto simp: pipe_fit_def Let_def split: sum.splits if_splits)

lemma pipe_predict_Inr:
  "pipe_predict lib p X = Inr preds \<longleftrightarrow>
     set (pre_columns p) \<subseteq> set (columns X) \<and> rows X \<noteq> [] \<and> finite_features lib p X
     \<and> preds = map (\<lambda>r. predict_row lib p (project_row (columns X) (pre_columns p) r)) (rows X)"
  by (auto simp: pipe_predict_def column_transformer_select_def Let_def filter_absent_Nil comp_def
        finite_features_def)

lemma predicted_column_of_training_table:
  assumes "length y = length rs" and "length yp = length rs"
  shows "get_column
           \<lparr>columns = [''lat'', ''lon'', ''actual_profit'', ''predicted_profit''],
            rows = map2 (\<lambda>r v. r @ [v])
                     (map2 (\<lambda>r v. r @ [v]) (map (project_row cols [''lat'', ''lon'']) rs) y) yp\<rparr>
           ''predicted_profit'' = Inr yp"
proof -
  have "map (\<lambda>r. r ! Suc (Suc (Suc 0)))
          (map2 (\<lambda>r v. r @ [v])
             (map2 (\<lambda>r v. r @ [v]) (map (project_row cols [''lat'', ''lon'']) rs) y) yp) = yp"
    using assms
  proof (induction rs arbitrary: y yp)
    case Nil
    then show ?case by simp
  next
    case (Cons r rs)
    then obtain a y' b yp' where "y = a # y'" "yp = b # yp'"
      by (cases y; cases yp) auto
    with Cons show ?case
      by (simp add: project_row_def)
  qed
  then show ?thesis
    by (simp add: get_column_def)
qed

lemma predicted_column_of_scored_table:
  "get_column
     \<lparr>columns = [''lat'', ''lon'', ''predicted_profit''],
      rows = map (prediction_record lib p cols) rs\<rparr> ''predicted_profit''
   = Inr (map (\<lambda>r. predict_row lib p (project_row cols (pre_columns p) r)) rs)"
  by (simp add: get_column_def prediction_record_def comp_def)

section \<open>Facts about the descending argsort\<close>

lemma index_of_nth: "distinct xs \<Longrightarrow> i < length xs \<Longrightarrow> index_of xs (xs ! i) = i"
proof (induction xs arbitrary: i)
  case Nil
  then show ?case by simp
next
  case (Cons x xs)
  then show ?case
    by (cases i) (auto simp: nth_Cons')
qed

lemma map_flip_upt: "map (\<lambda>j. n - Suc j) [0..<n] = rev [0..<n]"
  by (rule nth_equalityI) (simp_all add: rev_nth)

lemma insort_key_lex:
  fixes k :: "nat \<Rightarrow> 'k::linorder"
  assumes "sorted_wrt (\<lambda>a b. k a < k b \<or> (k a = k b \<and> a < b)) ys"
    and "\<forall>y \<in> set ys. x < y"
  shows "sorted_wrt (\<lambda>a b. k a < k b \<or> (k a = k b \<and> a < b)) (insort_key k x ys)"
  using assms
proof (induction ys)
  case Nil
  then show ?case by simp
next
  case (Cons y ys)
  show ?case
  proof (cases "k x \<le> k y")
    case True
    have "k x < k z \<or> (k x = k z \<and> x < z)" if "z \<in> set (y # ys)" for z
    proof -
      have "k y \<le> k z" using that Cons.prems(1) by auto
      moreover have "x < z" using that Cons.prems(2) by auto
      ultimately show ?thesis using True by auto
    qed
    with True Cons.prems(1) show ?thesis by simp
  next
    case False
    with Cons show ?thesis
      by (auto simp: set_insort_key)
  qed
qed

lemma sort_key_lex:
  fixes k :: "nat \<Rightarrow> 'k::linorder"
  assumes "sorted_wrt (<) xs"
  shows "sorted_wrt (\<lambda>a b. k a < k b \<or> (k a = k b \<and> a < b)) (sort_key k xs)"
  using assms
proof (induction xs)
  case Nil
  then show ?case by simp
next
  case (Cons x xs)
  then show ?case
    by (simp add: insort_key_lex)
qed

lemma nargsort_descending_eq:
  assumes "set (argsort lib (rev ks)) \<subseteq> {..<length ks}"
  shows "nargsort_descending lib ks = rev (map (\<lambda>j. length ks - Suc j) (argsort lib (rev ks)))"
proof -
  have "rev [0..<length ks] ! j = length ks - Suc j" if "j \<in> set (argsort lib (rev ks))" for j
    using that assms by (auto simp: rev_nth)
  then show ?thesis
    by (simp add: nargsort_descending_def Let_def cong: map_cong)
qed

lemma argsort_sorts_range:
  assumes "argsort_sorts lib"
  shows "set (argsort lib xs) = {..<length xs}"
proof -
  have "mset (argsort lib xs) = mset [0..<length xs]"
    using assms unfolding argsort_sorts_def by blast
  then have "set (argsort lib xs) = set [0..<length xs]"
    by (rule mset_eq_setD)
  then show ?thesis
    by (simp add: atLeast0LessThan)
qed

lemma nargsort_descending_perm:
  assumes "argsort_sorts lib"
  shows "mset (nargsort_descending lib ks) = mset [0..<length ks]"
proof -
  let ?n = "length ks"
  have r: "set (argsort lib (rev ks)) \<subseteq> {..<?n}"
    using argsort_sorts_range[OF assms, of "rev ks"] by simp
  have "mset (argsort lib (rev ks)) = mset [0..<?n]"
    using assms by (simp add: argsort_sorts_def)
  then have "mset (map (\<lambda>j. ?n - Suc j) (argsort lib (rev ks))) = mset (map (\<lambda>j. ?n - Suc j) [0..<?n])"
    by simp
  also have "\<dots> = mset [0..<?n]"
    by (simp only: map_flip_upt mset_rev)
  finally show ?thesis
    by (simp add: nargsort_descending_eq[OF r])
qed

lemma nargsort_descending_sorted:
  assumes "argsort_sorts lib"
  shows "sorted_wrt (\<lambda>i j. ks ! j \<le> ks ! i) (nargsort_descending lib ks)"
proof -
  let ?n = "length ks"
  let ?a = "argsort lib (rev ks)"
  have r: "set ?a \<subseteq> {..<?n}"
    using argsort_sorts_range[OF assms, of "rev ks"] by simp
  have "sorted (map (\<lambda>j. rev ks ! j) ?a)"
    using assms by (simp add: argsort_sorts_def)
  then have "sorted_wrt (\<lambda>i j. rev ks ! i \<le> rev ks ! j) ?a"
    by (simp add: sorted_wrt_map)
  then have "sorted_wrt (\<lambda>i j. ks ! (?n - Suc i) \<le> ks ! (?n - Suc j)) ?a"
  proof (rule sorted_wrt_mono_rel[rotated])
    fix i j assume ij: "i \<in> set ?a" "j \<in> set ?a" and le: "rev ks ! i \<le> rev ks ! j"
    from ij r have "i < ?n" "j < ?n" by auto
    then have "rev ks ! i = ks ! (?n - Suc i)" "rev ks ! j = ks ! (?n - Suc j)"
      by (simp_all add: rev_nth)
    with le show "ks ! (?n - Suc i) \<le> ks ! (?n - Suc j)"
      by simp
  qed
  then show ?thesis
    by (simp add: nargsort_descending_eq[OF r] sorted_wrt_rev sorted_wrt_map)
qed

lemma nargsort_descending_stable:
  assumes "argsort_stable lib"
  shows "sorted_wrt (\<lambda>i j. ks ! j < ks ! i \<or> (ks ! j = ks ! i \<and> i < j))
           (nargsort_descending lib ks)"
proof -
  let ?n = "length ks"
  let ?a = "argsort lib (rev ks)"
  have a: "?a = sort_key (\<lambda>j. rev ks ! j) [0..<?n]"
    using assms by (simp add: argsort_stable_def)
  then have r: "set ?a \<subseteq> {..<?n}"
    by auto
  have "sorted_wrt (\<lambda>i j. rev ks ! i < rev ks ! j \<or> (rev ks ! i = rev ks ! j \<and> i < j)) ?a"
    unfolding a by (rule sort_key_lex) (simp add: sorted_wrt_iff_nth_less)
  then have "sorted_wrt (\<lambda>i j. ks ! (?n - Suc i) < ks ! (?n - Suc j)
                \<or> (ks ! (?n - Suc i) = ks ! (?n - Suc j) \<and> ?n - Suc j < ?n - Suc i)) ?a"
  proof (rule sorted_wrt_mono_rel[rotated])
    fix i j assume ij: "i \<in> set ?a" "j \<in> set ?a"
      and lt: "rev ks ! i < rev ks ! j \<or> (rev ks ! i = rev ks ! j \<and> i < j)"
    from ij r have b: "i < ?n" "j < ?n" by auto
    then have "rev ks ! i = ks ! (?n - Suc i)" "rev ks ! j = ks ! (?n - Suc j)"
      by (simp_all add: rev_nth)
    with lt b show "ks ! (?n - Suc i) < ks ! (?n - Suc j)
                \<or> (ks ! (?n - Suc i) = ks ! (?n - Suc j) \<and> ?n - Suc j < ?n - Suc i)"
      by auto
  qed
  then show ?thesis
    by (simp add: nargsort_descending_eq[OF r] sorted_wrt_rev sorted_wrt_map)
qed

lemma zip_as_map_upt:
  "length xs = length ys \<Longrightarrow> zip xs ys = map (\<lambda>i. (xs ! i, ys ! i)) [0..<length xs]"
  by (rule nth_equalityI) simp_all

lemma train_FEATURES_facts: "length train_FEATURES = 13" "distinct train_FEATURES"
  by (simp_all add: train_FEATURES_def)

lemma feature_importance_ranking:
  fixes lib :: "('v::linordered_idom, 's, 'm) sklearn"
  assumes imp: "feature_importance lib coefs = Inr imp" and sorts: "argsort_sorts lib"
  shows "length coefs = 13"
    and "mset imp = mset (zip train_FEATURES coefs)"
    and "sorted_wrt (\<lambda>a b. \<bar>snd b\<bar> \<le> \<bar>snd a\<bar>) imp"
    and "argsort_stable lib \<Longrightarrow>
           sorted_wrt (\<lambda>a b. \<bar>snd b\<bar> < \<bar>snd a\<bar> \<or>
                         (\<bar>snd b\<bar> = \<bar>snd a\<bar> \<and>
                            index_of train_FEATURES (fst a) < index_of train_FEATURES (fst b))) imp"
proof -
  let ?ks = "map abs coefs"
  let ?ord = "nargsort_descending lib ?ks"
  from imp have len: "length coefs = length train_FEATURES"
    and imp_eq: "imp = map (\<lambda>i. (train_FEATURES ! i, coefs ! i)) ?ord"
    by (auto simp: feature_importance_def split: if_splits)
  show "length coefs = 13"
    using len by (simp add: train_FEATURES_facts)
  have perm: "mset ?ord = mset [0..<length coefs]"
    using nargsort_descending_perm[OF sorts, of ?ks] by simp
  then have "set ?ord = set [0..<length coefs]"
    by (rule mset_eq_setD)
  then have range: "set ?ord = {..<length coefs}"
    by (simp add: atLeast0LessThan)
  have "mset imp = mset (map (\<lambda>i. (train_FEATURES ! i, coefs ! i)) [0..<length coefs])"
    unfolding imp_eq using perm by simp
  then show "mset imp = mset (zip train_FEATURES coefs)"
    using len by (simp add: zip_as_map_upt)
  have "sorted_wrt (\<lambda>i j. ?ks ! j \<le> ?ks ! i) ?ord"
    by (rule nargsort_descending_sorted[OF sorts])
  then have "sorted_wrt (\<lambda>i j. \<bar>coefs ! j\<bar> \<le> \<bar>coefs ! i\<bar>) ?ord"
  proof (rule sorted_wrt_mono_rel[rotated])
    fix i j assume ij: "i \<in> set ?ord" "j \<in> set ?ord" and le: "?ks ! j \<le> ?ks ! i"
    from ij range have "i < length coefs" "j < length coefs" by auto
    with le show "\<bar>coefs ! j\<bar> \<le> \<bar>coefs ! i\<bar>" by simp
  qed
  then show "sorted_wrt (\<lambda>a b. \<bar>snd b\<bar> \<le> \<bar>snd a\<bar>) imp"
    by (simp add: imp_eq sorted_wrt_map)
  show "sorted_wrt (\<lambda>a b. \<bar>snd b\<bar> < \<bar>snd a\<bar> \<or>
                         (\<bar>snd b\<bar> = \<bar>snd a\<bar> \<and>
                            index_of train_FEATURES (fst a) < index_of train_FEATURES (fst b))) imp"
    if st: "argsort_stable lib"
  proof -
    have "sorted_wrt (\<lambda>i j. ?ks ! j < ?ks ! i \<or> (?ks ! j = ?ks ! i \<and> i < j)) ?ord"
      by (rule nargsort_descending_stable[OF st])
    then have "sorted_wrt (\<lambda>i j. \<bar>coefs ! j\<bar> < \<bar>coefs ! i\<bar> \<or>
                  (\<bar>coefs ! j\<bar> = \<bar>coefs ! i\<bar> \<and>
                     index_of train_FEATURES (train_FEATURES ! i)
                       < index_of train_FEATURES (train_FEATURES ! j))) ?ord"
    proof (rule sorted_wrt_mono_rel[rotated])
      fix i j assume ij: "i \<in> set ?ord" "j \<in> set ?ord"
        and lt: "?ks ! j < ?ks ! i \<or> (?ks ! j = ?ks ! i \<and> i < j)"
      from ij range have b: "i < length coefs" "j < length coefs" by auto
      with len have "index_of train_FEATURES (train_FEATURES ! i) = i"
        "index_of train_FEATURES (train_FEATURES ! j) = j"
        by (simp_all add: index_of_nth train_FEATURES_facts(2))
      with lt b show "\<bar>coefs ! j\<bar> < \<bar>coefs ! i\<bar> \<or>
                  (\<bar>coefs ! j\<bar> = \<bar>coefs ! i\<bar> \<and>
                     index_of train_FEATURES (train_FEATURES ! i)
                       < index_of train_FEATURES (train_FEATURES ! j))"
        by simp
    qed
    then show ?thesis
      by (simp add: imp_eq sorted_wrt_map)
  qed
qed

lemma n_test_of_bounds: "2 \<le> n \<Longrightarrow> 0 < n_test_of n \<and> n_test_of n < n"
  by (auto simp: n_test_of_def)

lemma list_all_nths:
  "list_all P xs \<Longrightarrow> set idx \<subseteq> {..<length xs} \<Longrightarrow> list_all P (map (\<lambda>i. xs ! i) idx)"
  by (auto simp: list_all_iff)

lemma project_row_same:
  "project_row cols cols (project_row all_cols cols r) = project_row all_cols cols r"
  by (rule project_row_twice) simp

lemma finite_rows_of_partition:
  assumes "all_finite lib (rows (feature_frame df))"
    and "set idx \<subseteq> {..<length (rows df)}"
  shows "all_finite lib
           (map (project_row train_FEATURES train_FEATURES) (rows (take_rows (feature_frame df) idx)))"
proof -
  have "all_finite lib (map (\<lambda>i. rows (feature_frame df) ! i) idx)"
    using assms unfolding all_finite_def
    by (intro list_all_nths) (simp_all add: feature_frame_def)
  moreover have "project_row train_FEATURES train_FEATURES (rows (feature_frame df) ! i)
                   = rows (feature_frame df) ! i" if "i \<in> set idx" for i
    using that assms(2) by (auto simp: feature_frame_def project_row_same)
  ultimately show ?thesis
    by (simp add: take_rows_def comp_def cong: map_cong)
qed

text \<open>
  When a training run completes: the view is read and has the feature, label and coordinate
  columns and at least two rows, every feature cell and every label is a finite number, the
  permutation is one of the row positions, and the regressor has one coefficient per feature.
\<close>

lemma run_training_succeeds:
  fixes fs :: "('v::linordered_idom, 's, 'm) filesystem"
  assumes view: "read_view fs db sql_path ''features_train'' = Inr df"
    and feats: "set train_FEATURES \<subseteq> set (columns df)"
    and target: "TARGET \<in> set (columns df)"
    and coords: "{''lat'', ''lon''} \<subseteq> set (columns df)"
    and two: "2 \<le> length (rows df)"
    and finite_X: "all_finite lib (rows (feature_frame df))"
    and finite_y: "list_all (finite_cell lib) (label_column df)"
    and perm: "mset (permutation lib 42 (length (rows df))) = mset [0..<length (rows df)]"
    and coefs: "\<And>Z y. length (coef lib (enet_fit lib Z y)) = length train_FEATURES"
  shows "fst (run_training lib db sql_path outdir fs) = None"
proof -
  let ?n = "length (rows df)"
  note b = n_test_of_bounds[OF two]
  have plen: "length (permutation lib 42 ?n) = ?n"
    using mset_eq_length[OF perm] by simp
  have "set (permutation lib 42 ?n) = set [0..<?n]"
    using perm by (rule mset_eq_setD)
  then have prange: "set (permutation lib 42 ?n) \<subseteq> {..<?n}"
    by (simp add: atLeast0LessThan)
  have tri: "set (train_indices lib 42 ?n) \<subseteq> {..<?n}"
    using prange set_take_subset set_drop_subset unfolding train_indices_def by fast
  have tei: "set (test_indices lib 42 ?n) \<subseteq> {..<?n}"
    using prange set_take_subset unfolding test_indices_def by fast
  have tr: "rows (training_frame lib df) \<noteq> []"
    using b plen by (simp add: training_frame_def take_rows_def train_indices_def)
  have ev: "rows (evaluation_frame lib df) \<noteq> []"
    using b plen two by (auto simp: evaluation_frame_def take_rows_def test_indices_def)
  have cols: "columns (training_frame lib df) = train_FEATURES"
    "columns (evaluation_frame lib df) = train_FEATURES"
    by (simp_all add: training_frame_def evaluation_frame_def take_rows_def feature_frame_def)
  have ftr: "all_finite lib
      (map (project_row train_FEATURES train_FEATURES) (rows (training_frame lib df)))"
    unfolding training_frame_def by (rule finite_rows_of_partition[OF finite_X tri])
  have fev: "all_finite lib
      (map (project_row train_FEATURES train_FEATURES) (rows (evaluation_frame lib df)))"
    unfolding evaluation_frame_def by (rule finite_rows_of_partition[OF finite_X tei])
  have fall: "all_finite lib
      (map (project_row train_FEATURES train_FEATURES) (rows (feature_frame df)))"
    using finite_X by (simp add: feature_frame_def comp_def project_row_same)
  have ltr: "list_all (finite_cell lib) (training_labels lib df)"
    unfolding training_labels_def
    using finite_y tri by (intro list_all_nths) (simp_all add: label_column_def)
  have lev: "list_all (finite_cell lib) (evaluation_labels lib df)"
    unfolding evaluation_labels_def
    using finite_y tei by (intro list_all_nths) (simp_all add: label_column_def)
  obtain p where fit: "pipe_fit lib train_FEATURES (training_frame lib df) (training_labels lib df) = Inr p"
    using tr cols ftr ltr
    by (simp add: pipe_fit_def column_transformer_select_def Let_def filter_absent_Nil)
  have pc: "pre_columns p = train_FEATURES"
    using fit by (rule pipe_fit_pre_columns)
  obtain y_pred_test where pt: "pipe_predict lib p (evaluation_frame lib df) = Inr y_pred_test"
    using ev cols pc fev by (simp add: pipe_predict_Inr finite_features_def)
  let ?metrics = "[(''r2'', r2_score lib (evaluation_labels lib df) y_pred_test),
                   (''mae'', mean_absolute_error lib (evaluation_labels lib df) y_pred_test)]"
  have fe: "fit_and_evaluate lib df = Inr (feature_frame df, label_column df, p, ?metrics)"
    using feats target b fit pt lev by (simp add: fit_and_evaluate_Inr)
  have ne: "rows df \<noteq> []"
    using two by auto
  have "finite_features lib p (feature_frame df)"
    using fall by (simp add: finite_features_def pc feature_frame_def)
  then obtain preds where fsp: "full_set_predictions lib p df (feature_frame df) (label_column df) = Inr preds"
    using coords ne pc
    by (simp add: full_set_predictions_Inr pipe_predict_Inr feature_frame_def label_column_def)
  have "length (coef lib (model p)) = length train_FEATURES"
    using fit coefs by (auto simp: pipe_fit_def Let_def split: sum.splits if_splits)
  then obtain imp where fi: "feature_importance lib (coef lib (model p)) = Inr imp"
    by (simp add: feature_importance_def)
  show ?thesis
    by (simp add: run_training_def Let_def view fe fsp fi)
qed

text \<open>
  With a permutation of the row positions, the split is a partition of the rows:
  \<open>n_test_of n\<close> of them (a quarter, rounded up) are held out for evaluation and the rest
  is the training partition.
\<close>

lemma split_is_partition:
  assumes "mset (permutation lib seed n) = mset [0..<n]"
  shows "length (test_indices lib seed n) = n_test_of n"
    and "length (train_indices lib seed n) = n - n_test_of n"
    and "mset (test_indices lib seed n) + mset (train_indices lib seed n) = mset [0..<n]"
proof -
  have len: "length (permutation lib seed n) = n"
    using mset_eq_length[OF assms] by simp
  have le: "n_test_of n \<le> n"
    by (simp add: n_test_of_def)
  show "length (test_indices lib seed n) = n_test_of n"
    using len le by (simp add: test_indices_def)
  show "length (train_indices lib seed n) = n - n_test_of n"
    using len by (simp add: train_indices_def)
  have "test_indices lib seed n @ train_indices lib seed n = permutation lib seed n"
    using len by (simp add: test_indices_def train_indices_def)
  then have "mset (test_indices lib seed n @ train_indices lib seed n) = mset [0..<n]"
    using assms by simp
  then show "mset (test_indices lib seed n) + mset (train_indices lib seed n) = mset [0..<n]"
    by simp
qed

section \<open>Facts about the concrete inputs\<close>

lemma demo_read_text: "read_text demo_fs ''queries.sql'' = Inr ''CREATE VIEW ...''"
  "read_text demo_fs_model ''queries.sql'' = Inr ''CREATE VIEW ...''"
  "read_text demo_fs_foreign ''queries.sql'' = Inr ''CREATE VIEW ...''"
  "read_text demo_fs_null ''queries.sql'' = Inr ''CREATE VIEW ...''"
  by (simp_all add: read_text_def demo_fs_def demo_fs_model_def demo_fs_foreign_def demo_fs_null_def)

lemma demo_views_candidates: "demo_views t c sql_text ''features_candidates'' = Inr c"
  by (simp add: demo_views_def)

lemma demo_views_train: "demo_views t c sql_text ''features_train'' = Inr t"
  by (simp add: demo_views_def)

lemma demo_read_view_train:
  "read_view demo_fs (demo_views t c) ''queries.sql'' ''features_train'' = Inr t"
  by (simp add: read_view_def demo_read_text demo_views_train)

lemma demo_artifact: "files demo_fs_model ''outputs/model.joblib'' = Some (Joblib demo_pipe)"
  by (simp add: demo_fs_model_def)

lemma demo_artifact_null: "files demo_fs_null ''outputs/model.joblib'' = Some (Joblib demo_pipe_null)"
  by (simp add: demo_fs_null_def)

lemma demo_pipe_compatible: "set (pre_columns demo_pipe) \<subseteq> set score_FEATURES"
  "set (pre_columns demo_pipe_null) \<subseteq> set score_FEATURES"
  by (simp_all add: demo_pipe_def demo_pipe_null_def train_FEATURES_def score_FEATURES_def)

lemma demo_lib_all_finite: "finite_features demo_lib p X"
  by (simp add: finite_features_def all_finite_def demo_lib_def list_all_iff)

lemma demo_training_run:
  "fst (run_training demo_lib (demo_views demo_train c) ''queries.sql'' ''outputs'' demo_fs) = None"
  "fst (run_training demo_lib (demo_views demo_train_other_eval c) ''queries.sql'' ''outputs'' demo_fs) = None"
  by code_simp+

section \<open>Ingestion: missing columns\<close>

lemma finite_required_for: "finite (required_for table)"
  by (simp add: required_for_def REQUIRED_TRAIN_def REQUIRED_CAND_def)

lemma load_csv_to_db_missing:
  assumes "csvs csv_path = Some df" and "\<not> required_for table \<subseteq> set (columns df)"
  shows "load_csv_to_db csvs csv_path table con =
           (Some (ValueError_missing_columns table
                    (sorted_list_of_set (required_for table - set (columns df)))), con)"
  using assms by (auto simp: load_csv_to_db_def validate_columns_def required_for_def Let_def)

lemma load_csv_to_db_ok:
  assumes "csvs csv_path = Some df" and "required_for table \<subseteq> set (columns df)"
  shows "load_csv_to_db csvs csv_path table con = (None, con(table \<mapsto> df))"
  using assms by (auto simp: load_csv_to_db_def validate_columns_def required_for_def Let_def)

lemma create_table_if_not_exists_same:
  "create_table_if_not_exists t cols con t =
     (case con t of None \<Rightarrow> Some \<lparr>columns = cols, rows = []\<rparr> | Some old \<Rightarrow> Some old)"
  by (simp add: create_table_if_not_exists_def split: option.splits)

lemma create_table_if_not_exists_other:
  "t' \<noteq> t \<Longrightarrow> create_table_if_not_exists t cols con t' = con t'"
  by (simp add: create_table_if_not_exists_def split: option.splits)

text \<open>
  C7 (amended). A CSV that lacks required columns is rejected by \<open>_load_csv_to_db\<close> with a
  ValueError that carries exactly the sorted list of all missing names, and the load leaves the
  database as it found it: an existing target table is not overwritten. The invocation
  (\<open>main\<close>) has by then run its \<open>CREATE TABLE IF NOT EXISTS\<close> statements, so a target
  table that did not exist before exists afterwards, empty, with the schema's columns.
\<close>

theorem ingestion_missing_columns:
  fixes csvs :: "string \<rightharpoonup> 'v frame" and con :: "'v database"
  assumes "csvs csv_path = Some df"
    and "\<not> required_for table \<subseteq> set (columns df)"
  shows "load_csv_to_db csvs csv_path table con =
           (Some (ValueError_missing_columns table
                    (sorted_list_of_set (required_for table - set (columns df)))), con)
       \<and> sorted (sorted_list_of_set (required_for table - set (columns df)))
       \<and> distinct (sorted_list_of_set (required_for table - set (columns df)))
       \<and> set (sorted_list_of_set (required_for table - set (columns df)))
           = required_for table - set (columns df)
       \<and> (table = ''locations_train'' \<longrightarrow>
            fst (create_db_main csvs csv_path candidates con) =
              Some (ValueError_missing_columns table
                      (sorted_list_of_set (required_for table - set (columns df))))
          \<and> snd (create_db_main csvs csv_path candidates con) table =
              (case con table of
                 None \<Rightarrow> Some \<lparr>columns = SCHEMA_TRAIN, rows = []\<rparr>
               | Some old \<Rightarrow> Some old))
       \<and> (table = ''locations_candidates'' \<longrightarrow>
            (\<forall>train dt. csvs train = Some dt \<longrightarrow> REQUIRED_TRAIN \<subseteq> set (columns dt) \<longrightarrow>
               fst (create_db_main csvs train csv_path con) =
                 Some (ValueError_missing_columns table
                         (sorted_list_of_set (required_for table - set (columns df))))
             \<and> snd (create_db_main csvs train csv_path con) table =
                 (case con table of
                    None \<Rightarrow> Some \<lparr>columns = SCHEMA_CAND, rows = []\<rparr>
                  | Some old \<Rightarrow> Some old)))"
proof -
  let ?missing = "sorted_list_of_set (required_for table - set (columns df))"
  have fin: "finite (required_for table - set (columns df))"
    using finite_required_for by simp
  have load: "\<And>c. load_csv_to_db csvs csv_path table c =
                 (Some (ValueError_missing_columns table ?missing), c)"
    using load_csv_to_db_missing[where csvs = csvs and csv_path = csv_path, OF assms] by simp
  have train: "table = ''locations_train'' \<Longrightarrow>
      create_db_main csvs csv_path candidates con =
        (Some (ValueError_missing_columns table ?missing),
         create_table_if_not_exists ''locations_candidates'' SCHEMA_CAND
           (create_table_if_not_exists ''locations_train'' SCHEMA_TRAIN con))"
    using load by (simp add: create_db_main_def Let_def)
  have cand: "create_db_main csvs tr csv_path con =
        (Some (ValueError_missing_columns table ?missing),
         (create_table_if_not_exists ''locations_candidates'' SCHEMA_CAND
           (create_table_if_not_exists ''locations_train'' SCHEMA_TRAIN con))
           (''locations_train'' \<mapsto> dt))"
    if "table = ''locations_candidates''" "csvs tr = Some dt" "REQUIRED_TRAIN \<subseteq> set (columns dt)"
    for tr dt
  proof -
    have "required_for ''locations_train'' \<subseteq> set (columns dt)"
      using that(3) by (simp add: required_for_def)
    from load_csv_to_db_ok[where csvs = csvs and csv_path = tr, OF that(2) this] show ?thesis
      using load that(1) by (simp add: create_db_main_def Let_def)
  qed
  show ?thesis
  proof (intro conjI impI allI)
    show "load_csv_to_db csvs csv_path table con =
            (Some (ValueError_missing_columns table ?missing), con)"
      by (rule load)
    show "sorted ?missing" by simp
    show "distinct ?missing" by simp
    show "set ?missing = required_for table - set (columns df)"
      using fin by simp
  next
    assume t: "table = ''locations_train''"
    show "fst (create_db_main csvs csv_path candidates con) =
            Some (ValueError_missing_columns table ?missing)"
      using train[OF t] by simp
    show "snd (create_db_main csvs csv_path candidates con) table =
            (case con table of
               None \<Rightarrow> Some \<lparr>columns = SCHEMA_TRAIN, rows = []\<rparr>
             | Some old \<Rightarrow> Some old)"
      using train[OF t] t
      by (simp add: create_table_if_not_exists_other create_table_if_not_exists_same)
  next
    fix tr dt
    assume t: "table = ''locations_candidates''" and a: "csvs tr = Some dt"
      and b: "REQUIRED_TRAIN \<subseteq> set (columns dt)"
    show "fst (create_db_main csvs tr csv_path con) =
            Some (ValueError_missing_columns table ?missing)"
      using cand[OF t a b] by simp
    show "snd (create_db_main csvs tr csv_path con) table =
            (case con table of
               None \<Rightarrow> Some \<lparr>columns = SCHEMA_CAND, rows = []\<rparr>
             | Some old \<Rightarrow> Some old)"
      using cand[OF t a b] t
      by (simp add: create_table_if_not_exists_other create_table_if_not_exists_same)
  qed
qed

theorem ingestion_missing_columns_witness:
  "demo_csvs ''bad_train.csv'' = Some csv_without_rent
   \<and> \<not> required_for ''locations_train'' \<subseteq> set (columns csv_without_rent)
   \<and> fst (create_db_main demo_csvs ''bad_train.csv'' ''cand.csv''
            [''locations_train'' \<mapsto> old_table]) =
       Some (ValueError_missing_columns ''locations_train'' [''rent_per_sqm''])
   \<and> snd (create_db_main demo_csvs ''bad_train.csv'' ''cand.csv''
            [''locations_train'' \<mapsto> old_table]) ''locations_train'' = Some old_table
   \<and> demo_csvs ''cand.csv'' = Some csv_cand_short
   \<and> \<not> required_for ''locations_candidates'' \<subseteq> set (columns csv_cand_short)
   \<and> demo_csvs ''train.csv'' = Some csv_train_ok
   \<and> REQUIRED_TRAIN \<subseteq> set (columns csv_train_ok)
   \<and> fst (create_db_main demo_csvs ''train.csv'' ''cand.csv'' Map.empty) =
       Some (ValueError_missing_columns ''locations_candidates''
               [''coffee_price'', ''competition'', ''events_per_month'', ''median_income'',
                ''office_density'', ''promo_spend'', ''rent_per_sqm'', ''weekend_activity''])
   \<and> snd (create_db_main demo_csvs ''train.csv'' ''cand.csv'' Map.empty) ''locations_candidates'' =
       Some \<lparr>columns = SCHEMA_CAND, rows = []\<rparr>"
proof -
  have h1: "demo_csvs ''bad_train.csv'' = Some csv_without_rent"
    by (simp add: demo_csvs_def)
  have h2: "\<not> required_for ''locations_train'' \<subseteq> set (columns csv_without_rent)"
    by code_simp
  have m1: "sorted_list_of_set (required_for ''locations_train'' - set (columns csv_without_rent))
              = [''rent_per_sqm'']"
    by code_simp
  have h3: "demo_csvs ''cand.csv'' = Some csv_cand_short"
    by (simp add: demo_csvs_def)
  have h4: "\<not> required_for ''locations_candidates'' \<subseteq> set (columns csv_cand_short)"
    by code_simp
  have m2: "sorted_list_of_set (required_for ''locations_candidates'' - set (columns csv_cand_short))
              = [''coffee_price'', ''competition'', ''events_per_month'', ''median_income'',
                 ''office_density'', ''promo_spend'', ''rent_per_sqm'', ''weekend_activity'']"
    by code_simp
  have h5: "demo_csvs ''train.csv'' = Some csv_train_ok"
    by (simp add: demo_csvs_def)
  have h6: "REQUIRED_TRAIN \<subseteq> set (columns csv_train_ok)"
    by code_simp
  note a = ingestion_missing_columns[where csvs = demo_csvs and csv_path = "''bad_train.csv''"
      and con = "[''locations_train'' \<mapsto> old_table]" and candidates = "''cand.csv''", OF h1 h2]
  note b = ingestion_missing_columns[where csvs = demo_csvs and csv_path = "''cand.csv''"
      and con = Map.empty, OF h3 h4]
  from a have a1: "fst (create_db_main demo_csvs ''bad_train.csv'' ''cand.csv''
            [''locations_train'' \<mapsto> old_table]) =
       Some (ValueError_missing_columns ''locations_train'' [''rent_per_sqm''])"
    and a2: "snd (create_db_main demo_csvs ''bad_train.csv'' ''cand.csv''
            [''locations_train'' \<mapsto> old_table]) ''locations_train'' = Some old_table"
    unfolding m1 by simp_all
  from b h5 h6 have b1: "fst (create_db_main demo_csvs ''train.csv'' ''cand.csv'' Map.empty) =
       Some (ValueError_missing_columns ''locations_candidates''
               [''coffee_price'', ''competition'', ''events_per_month'', ''median_income'',
                ''office_density'', ''promo_spend'', ''rent_per_sqm'', ''weekend_activity''])"
    and b2: "snd (create_db_main demo_csvs ''train.csv'' ''cand.csv'' Map.empty) ''locations_candidates'' =
       Some \<lparr>columns = SCHEMA_CAND, rows = []\<rparr>"
    unfolding m2 by simp_all
  show ?thesis using h1 h2 h3 h4 h5 h6 a1 a2 b1 b2 by blast
qed

text \<open>
  C7 as stated fails: on a database with no tables, the invocation given a training CSV
  without \<open>rent_per_sqm\<close> reports exactly that name and has created \<open>locations_train\<close>.
\<close>

theorem ingestion_creates_table_counterexample:
  "fst (create_db_main demo_csvs ''bad_train.csv'' ''cand.csv'' Map.empty) =
     Some (ValueError_missing_columns ''locations_train'' [''rent_per_sqm''])
   \<and> (Map.empty :: int database) ''locations_train'' = None
   \<and> snd (create_db_main demo_csvs ''bad_train.csv'' ''cand.csv'' Map.empty) ''locations_train'' =
       Some \<lparr>columns = SCHEMA_TRAIN, rows = []\<rparr>"
  by code_simp

section \<open>The feature contract of the two stages\<close>

text \<open>
  C2. The feature list of the training stage and the feature list of the scoring stage are
  the same list: the same 13 pairwise different names in the same order. Hence selecting the
  scoring features from any frame gives what selecting the training features gives, columns
  in the order in which the pipeline was fitted.
\<close>

theorem feature_lists_identical:
  "train_FEATURES = score_FEATURES
   \<and> length score_FEATURES = 13
   \<and> distinct score_FEATURES
   \<and> (\<forall>df :: 'v frame. select_columns df score_FEATURES = select_columns df train_FEATURES)"
  by (simp add: train_FEATURES_def score_FEATURES_def)

section \<open>Scoring: failures\<close>




section \<open>Scoring: one prediction record per candidate, in order\<close>

lemma files_save_csv_same:
  "files (save_csv df d name fs) (path_join d name) = Some (Csv df)"
  by (simp add: save_csv_def write_file_def)

text \<open>
  C4 (amended). Let the candidate view be read, the artifact be present and fitted on columns
  among the 13 scoring features, and the view have the 13 features, \<open>lat\<close> and \<open>lon\<close>
  among its columns. Then for every view of \<open>N \<ge> 1\<close> rows whose cells in the artifact's
  columns are all finite numbers, \<open>run_scoring\<close> succeeds and writes exactly \<open>N\<close>
  prediction records, in the order of the input rows, record \<open>i\<close> holding the \<open>lat\<close> and
  \<open>lon\<close> of input row \<open>i\<close> and the value predicted from the features of input row
  \<open>i\<close>. For a view of no rows, and for a view in which a cell of the artifact's columns is
  not a finite number (a NULL, a NaN), the pipeline's \<open>predict\<close> raises ValueError and no
  file is written.
\<close>

theorem scoring_preserves_order:
  fixes fs :: "('v, 's, 'm) filesystem"
  assumes sql: "read_text fs sql_path = Inr sql_text"
    and view: "db sql_text ''features_candidates'' = Inr X"
    and art: "files fs model_path = Some (Joblib p)"
    and compat: "set (pre_columns p) \<subseteq> set score_FEATURES"
    and feats: "set score_FEATURES \<subseteq> set (columns X)"
    and coords: "{''lat'', ''lon''} \<subseteq> set (columns X)"
  shows "(rows X \<noteq> [] \<longrightarrow> finite_features lib p X \<longrightarrow>
            fst (run_scoring lib db sql_path model_path outdir fs) = None
          \<and> (\<exists>S. files (snd (run_scoring lib db sql_path model_path outdir fs))
                     (path_join outdir ''scored_candidates.csv'') = Some (Csv S)
                 \<and> columns S = [''lat'', ''lon'', ''predicted_profit'']
                 \<and> length (rows S) = length (rows X)
                 \<and> (\<forall>i < length (rows X).
                       rows S ! i =
                         [rows X ! i ! index_of (columns X) ''lat'',
                          rows X ! i ! index_of (columns X) ''lon'',
                          predict_row lib p (project_row (columns X) (pre_columns p) (rows X ! i))])))
       \<and> (rows X = [] \<longrightarrow>
            fst (run_scoring lib db sql_path model_path outdir fs) = Some ValueError_no_samples
          \<and> files (snd (run_scoring lib db sql_path model_path outdir fs)) = files fs)
       \<and> (rows X \<noteq> [] \<longrightarrow> \<not> finite_features lib p X \<longrightarrow>
            fst (run_scoring lib db sql_path model_path outdir fs) =
              Some ValueError_input_contains_nan
          \<and> files (snd (run_scoring lib db sql_path model_path outdir fs)) = files fs)"
proof (intro conjI impI)
  assume ne: "rows X \<noteq> []" and fin: "finite_features lib p X"
  note run = run_scoring_success[where lib = lib and outdir = outdir and db = db,
      OF sql view art compat feats coords ne fin]
  show "fst (run_scoring lib db sql_path model_path outdir fs) = None"
    by (simp add: run)
  show "\<exists>S. files (snd (run_scoring lib db sql_path model_path outdir fs))
                (path_join outdir ''scored_candidates.csv'') = Some (Csv S)
            \<and> columns S = [''lat'', ''lon'', ''predicted_profit'']
            \<and> length (rows S) = length (rows X)
            \<and> (\<forall>i < length (rows X).
                  rows S ! i =
                    [rows X ! i ! index_of (columns X) ''lat'',
                     rows X ! i ! index_of (columns X) ''lon'',
                     predict_row lib p (project_row (columns X) (pre_columns p) (rows X ! i))])"
    by (simp add: run files_save_csv_same prediction_record_def)
next
  assume em: "rows X = []"
  have sel: "select_columns X score_FEATURES = Inr \<lparr>columns = score_FEATURES, rows = []\<rparr>"
    using feats em by (simp add: select_columns_present)
  have pred: "pipe_predict lib p \<lparr>columns = score_FEATURES, rows = []\<rparr> = Inl ValueError_no_samples"
    using compat by (simp add: pipe_predict_no_rows)
  have run: "run_scoring lib db sql_path model_path outdir fs =
               (Some ValueError_no_samples, ensure_outdir outdir fs)"
    by (simp add: run_scoring_def Let_def sql view joblib_load_present[OF art] sel pred)
  show "fst (run_scoring lib db sql_path model_path outdir fs) = Some ValueError_no_samples"
    by (simp add: run)
  show "files (snd (run_scoring lib db sql_path model_path outdir fs)) = files fs"
    by (simp add: run)
next
  assume ne: "rows X \<noteq> []" and nf: "\<not> finite_features lib p X"
  let ?XF = "\<lparr>columns = score_FEATURES,
               rows = map (project_row (columns X) score_FEATURES) (rows X)\<rparr>"
  have sel: "select_columns X score_FEATURES = Inr ?XF"
    using feats by (rule select_columns_present)
  have "\<not> finite_features lib p ?XF"
    using nf by (simp add: finite_features_selected[OF compat])
  then have pred: "pipe_predict lib p ?XF = Inl ValueError_input_contains_nan"
    using compat ne by (simp add: pipe_predict_not_finite)
  have run: "run_scoring lib db sql_path model_path outdir fs =
               (Some ValueError_input_contains_nan, ensure_outdir outdir fs)"
    by (simp add: run_scoring_def Let_def sql view joblib_load_present[OF art] sel pred)
  show "fst (run_scoring lib db sql_path model_path outdir fs) = Some ValueError_input_contains_nan"
    by (simp add: run)
  show "files (snd (run_scoring lib db sql_path model_path outdir fs)) = files fs"
    by (simp add: run)
qed

theorem scoring_preserves_order_witness:
  "read_text demo_fs_model ''queries.sql'' = Inr ''CREATE VIEW ...''
   \<and> demo_views demo_train demo_cand_extra ''CREATE VIEW ...'' ''features_candidates'' = Inr demo_cand_extra
   \<and> files demo_fs_model ''outputs/model.joblib'' = Some (Joblib demo_pipe)
   \<and> set (pre_columns demo_pipe) \<subseteq> set score_FEATURES
   \<and> set score_FEATURES \<subseteq> set (columns demo_cand_extra)
   \<and> {''lat'', ''lon''} \<subseteq> set (columns demo_cand_extra)
   \<and> rows demo_cand_extra \<noteq> []
   \<and> finite_features demo_lib demo_pipe demo_cand_extra
   \<and> fst (run_scoring demo_lib (demo_views demo_train demo_cand_extra) ''queries.sql''
        ''outputs/model.joblib'' ''outputs'' demo_fs_model) = None
   \<and> files (snd (run_scoring demo_lib (demo_views demo_train demo_cand_extra) ''queries.sql''
        ''outputs/model.joblib'' ''outputs'' demo_fs_model)) ''outputs/scored_candidates.csv'' =
       Some (Csv \<lparr>columns = [''lat'', ''lon'', ''predicted_profit''],
                  rows = [[60, 5, 106], [61, 4, 89], [62, 3, 104]]\<rparr>)
   \<and> files demo_fs_null ''outputs/model.joblib'' = Some (Joblib demo_pipe_null)
   \<and> set score_FEATURES \<union> {''lat'', ''lon''} \<subseteq> set (columns demo_cand_null)
   \<and> rows demo_cand_null \<noteq> []
   \<and> \<not> finite_features demo_lib_null demo_pipe_null demo_cand_null
   \<and> fst (run_scoring demo_lib_null (demo_views demo_cand_null demo_cand_null) ''queries.sql''
        ''outputs/model.joblib'' ''outputs'' demo_fs_null) = Some ValueError_input_contains_nan
   \<and> files (snd (run_scoring demo_lib_null (demo_views demo_cand_null demo_cand_null) ''queries.sql''
        ''outputs/model.joblib'' ''outputs'' demo_fs_null)) = files demo_fs_null"
proof -
  have f: "set score_FEATURES \<subseteq> set (columns demo_cand_extra)"
    by (simp add: demo_cand_extra_def score_FEATURES_def)
  have c: "{''lat'', ''lon''} \<subseteq> set (columns demo_cand_extra)"
    by (simp add: demo_cand_extra_def)
  have n: "rows demo_cand_extra \<noteq> []"
    by (simp add: demo_cand_extra_def)
  note t = scoring_preserves_order[where lib = demo_lib and outdir = "''outputs''"
      and db = "demo_views demo_train demo_cand_extra",
      OF demo_read_text(2) demo_views_candidates demo_artifact demo_pipe_compatible(1) f c]
  from t n demo_lib_all_finite
  have ok: "fst (run_scoring demo_lib (demo_views demo_train demo_cand_extra) ''queries.sql''
        ''outputs/model.joblib'' ''outputs'' demo_fs_model) = None"
    by blast
  have val: "files (snd (run_scoring demo_lib (demo_views demo_train demo_cand_extra) ''queries.sql''
        ''outputs/model.joblib'' ''outputs'' demo_fs_model)) ''outputs/scored_candidates.csv'' =
       Some (Csv \<lparr>columns = [''lat'', ''lon'', ''predicted_profit''],
                  rows = [[60, 5, 106], [61, 4, 89], [62, 3, 104]]\<rparr>)"
    by code_simp
  have f0: "set score_FEATURES \<subseteq> set (columns demo_cand_null)"
    and c0: "{''lat'', ''lon''} \<subseteq> set (columns demo_cand_null)"
    by (auto simp: demo_cand_null_def)
  have n0: "rows demo_cand_null \<noteq> []"
    by (simp add: demo_cand_null_def)
  have nf: "\<not> finite_features demo_lib_null demo_pipe_null demo_cand_null"
    by code_simp
  note t0 = scoring_preserves_order[where lib = demo_lib_null and outdir = "''outputs''"
      and db = "demo_views demo_cand_null demo_cand_null",
      OF demo_read_text(4) demo_views_candidates demo_artifact_null demo_pipe_compatible(2) f0 c0]
  from t0 n0 nf
  have bad: "fst (run_scoring demo_lib_null (demo_views demo_cand_null demo_cand_null) ''queries.sql''
        ''outputs/model.joblib'' ''outputs'' demo_fs_null) = Some ValueError_input_contains_nan"
    and bad': "files (snd (run_scoring demo_lib_null (demo_views demo_cand_null demo_cand_null) ''queries.sql''
        ''outputs/model.joblib'' ''outputs'' demo_fs_null)) = files demo_fs_null"
    by blast+
  show ?thesis
    using demo_read_text(2) demo_artifact demo_pipe_compatible(1) f c n
      ok val demo_artifact_null f0 c0 n0 nf bad bad'
    by (simp add: demo_views_candidates demo_lib_all_finite)
qed

text \<open>
  C4 as stated fails for \<open>N = 0\<close>: on a candidate view with the right columns and no rows
  \<open>run_scoring\<close> ends with a ValueError and there is no prediction table.
\<close>

theorem scoring_empty_view_counterexample:
  "files demo_fs_model ''outputs/model.joblib'' = Some (Joblib demo_pipe)
   \<and> columns demo_cand_empty = [''lat'', ''lon''] @ score_FEATURES
   \<and> length (rows demo_cand_empty) = 0
   \<and> fst (run_scoring demo_lib (demo_views demo_train demo_cand_empty) ''queries.sql''
        ''outputs/model.joblib'' ''outputs'' demo_fs_model) = Some ValueError_no_samples
   \<and> files (snd (run_scoring demo_lib (demo_views demo_train demo_cand_empty) ''queries.sql''
        ''outputs/model.joblib'' ''outputs'' demo_fs_model)) ''outputs/scored_candidates.csv'' = None"
  by code_simp

section \<open>Scoring: only the features and the coordinates matter\<close>

text \<open>
  C10 (amended). Two candidate views that agree on the 13 feature columns and on \<open>lat\<close> and
  \<open>lon\<close>, whatever further columns and whatever column order either has, give the same
  result of \<open>run_scoring\<close>: the same prediction records in the same file, or the same
  failure. Scoring succeeds for such a view when the artifact is present and fitted on columns
  among the 13 scoring features, the view's columns include the 13 features, \<open>lat\<close> and
  \<open>lon\<close>, the view has at least one row, and its cells in the artifact's columns are all
  finite numbers.
\<close>

theorem scoring_ignores_other_columns:
  fixes fs :: "('v, 's, 'm) filesystem"
  assumes sql: "read_text fs sql_path = Inr sql_text"
    and view1: "db1 sql_text ''features_candidates'' = Inr X1"
    and view2: "db2 sql_text ''features_candidates'' = Inr X2"
    and agree_features: "select_columns X1 score_FEATURES = select_columns X2 score_FEATURES"
    and agree_coords: "select_columns X1 [''lat'', ''lon''] = select_columns X2 [''lat'', ''lon'']"
  shows "run_scoring lib db2 sql_path model_path outdir fs =
           run_scoring lib db1 sql_path model_path outdir fs
       \<and> (\<forall>p. files fs model_path = Some (Joblib p) \<longrightarrow>
                set (pre_columns p) \<subseteq> set score_FEATURES \<longrightarrow>
                set score_FEATURES \<union> {''lat'', ''lon''} \<subseteq> set (columns X1) \<longrightarrow>
                rows X1 \<noteq> [] \<longrightarrow> finite_features lib p X1 \<longrightarrow>
                fst (run_scoring lib db1 sql_path model_path outdir fs) = None
              \<and> fst (run_scoring lib db2 sql_path model_path outdir fs) = None)"
proof -
  have same: "run_scoring lib db2 sql_path model_path outdir fs =
      run_scoring lib db1 sql_path model_path outdir fs"
    unfolding run_scoring_def Let_def
    by (simp add: sql view1 view2 agree_features[symmetric] agree_coords[symmetric]
          cong: sum.case_cong)
  have "fst (run_scoring lib db1 sql_path model_path outdir fs) = None"
    if art: "files fs model_path = Some (Joblib p)"
      and compat: "set (pre_columns p) \<subseteq> set score_FEATURES"
      and sup: "set score_FEATURES \<union> {''lat'', ''lon''} \<subseteq> set (columns X1)"
      and ne: "rows X1 \<noteq> []" and fin: "finite_features lib p X1" for p
  proof -
    from sup have feats: "set score_FEATURES \<subseteq> set (columns X1)"
      and coords: "{''lat'', ''lon''} \<subseteq> set (columns X1)"
      by auto
    show ?thesis
      by (simp add: run_scoring_success[where lib = lib and outdir = outdir and db = db1,
            OF sql view1 art compat feats coords ne fin])
  qed
  with same show ?thesis by simp
qed

theorem scoring_ignores_other_columns_witness:
  "read_text demo_fs_model ''queries.sql'' = Inr ''CREATE VIEW ...''
   \<and> files demo_fs_model ''outputs/model.joblib'' = Some (Joblib demo_pipe)
   \<and> set (pre_columns demo_pipe) \<subseteq> set score_FEATURES
   \<and> demo_views demo_train demo_cand ''CREATE VIEW ...'' ''features_candidates'' = Inr demo_cand
   \<and> demo_views demo_train demo_cand_extra ''CREATE VIEW ...'' ''features_candidates'' = Inr demo_cand_extra
   \<and> set score_FEATURES \<union> {''lat'', ''lon''} \<subseteq> set (columns demo_cand)
   \<and> columns demo_cand \<noteq> columns demo_cand_extra
   \<and> select_columns demo_cand score_FEATURES = select_columns demo_cand_extra score_FEATURES
   \<and> select_columns demo_cand [''lat'', ''lon''] = select_columns demo_cand_extra [''lat'', ''lon'']
   \<and> rows demo_cand \<noteq> []
   \<and> finite_features demo_lib demo_pipe demo_cand
   \<and> fst (run_scoring demo_lib (demo_views demo_train demo_cand) ''queries.sql''
        ''outputs/model.joblib'' ''outputs'' demo_fs_model) = None
   \<and> fst (run_scoring demo_lib (demo_views demo_train demo_cand_extra) ''queries.sql''
        ''outputs/model.joblib'' ''outputs'' demo_fs_model) = None
   \<and> run_scoring demo_lib (demo_views demo_train demo_cand_extra) ''queries.sql''
        ''outputs/model.joblib'' ''outputs'' demo_fs_model =
       run_scoring demo_lib (demo_views demo_train demo_cand) ''queries.sql''
        ''outputs/model.joblib'' ''outputs'' demo_fs_model"
proof -
  have s1: "set score_FEATURES \<union> {''lat'', ''lon''} \<subseteq> set (columns demo_cand)"
    by (simp add: demo_cand_def score_FEATURES_def)
  have d: "columns demo_cand \<noteq> columns demo_cand_extra"
    by (simp add: demo_cand_def demo_cand_extra_def)
  have a1: "select_columns demo_cand score_FEATURES = select_columns demo_cand_extra score_FEATURES"
    by code_simp
  have a2: "select_columns demo_cand [''lat'', ''lon''] = select_columns demo_cand_extra [''lat'', ''lon'']"
    by code_simp
  have n: "rows demo_cand \<noteq> []"
    by (simp add: demo_cand_def)
  note t = scoring_ignores_other_columns[where lib = demo_lib and outdir = "''outputs''"
      and model_path = "''outputs/model.joblib''"
      and ?db1.0 = "demo_views demo_train demo_cand"
      and ?db2.0 = "demo_views demo_train demo_cand_extra",
      OF demo_read_text(2) demo_views_candidates demo_views_candidates a1 a2]
  show ?thesis
    using demo_read_text(2) demo_artifact demo_pipe_compatible(1) s1 d a1 a2 n t
    by (simp add: demo_views_candidates demo_lib_all_finite)
qed

text \<open>
  C10 as stated fails for a view of no rows: its columns are a superset of the 13 features
  plus \<open>lat\<close> and \<open>lon\<close>, and scoring does not succeed.
\<close>

theorem scoring_superset_empty_view_counterexample:
  "files demo_fs_model ''outputs/model.joblib'' = Some (Joblib demo_pipe)
   \<and> set score_FEATURES \<union> {''lat'', ''lon''} \<subseteq> set (columns demo_cand_empty_extra)
   \<and> fst (run_scoring demo_lib (demo_views demo_train demo_cand_empty_extra) ''queries.sql''
        ''outputs/model.joblib'' ''outputs'' demo_fs_model) = Some ValueError_no_samples"
  by code_simp

section \<open>Training: too few records\<close>

lemma no_training_rows_iff: "n - n_test_of n = 0 \<longleftrightarrow> n < 2"
  by (auto simp: n_test_of_def)

lemma no_training_rows_iff': "n \<le> n_test_of n \<longleftrightarrow> n < 2"
  by (auto simp: n_test_of_def)

lemma fit_and_evaluate_few:
  assumes "length (rows df) < 2"
  shows "\<exists>e. fit_and_evaluate lib df = Inl e"
proof (cases "fit_and_evaluate lib df")
  case (Inl e)
  then show ?thesis by blast
next
  case (Inr r)
  obtain X y p metrics where "r = (X, y, p, metrics)"
    by (cases r) auto
  with Inr have "length (rows df) - n_test_of (length (rows df)) \<noteq> 0"
    by (simp add: fit_and_evaluate_Inr)
  with assms show ?thesis
    by (simp add: no_training_rows_iff')
qed

lemma fit_and_evaluate_few_columns_present:
  assumes "length (rows df) < 2"
    and "set train_FEATURES \<subseteq> set (columns df)" and "TARGET \<in> set (columns df)"
  shows "fit_and_evaluate lib df = Inl (ValueError_empty_train_set (length (rows df)))"
proof -
  have "length (rows df) - n_test_of (length (rows df)) = 0"
    using assms(1) by (simp add: no_training_rows_iff')
  then show ?thesis
    using assms(2,3)
    by (simp add: fit_and_evaluate_def select_columns_present get_column_def
          train_test_split_def Let_def)
qed

text \<open>
  C6. When the training view holds fewer than 2 records (none, or one), \<open>run_training\<close>
  fails, and no file has been created or changed when it fails (only the two output
  directories exist by then). With the feature and label columns present the failure is the
  ValueError of \<open>train_test_split\<close> for an empty training partition, which is what the
  specification calls InsufficientDataError.
\<close>

theorem training_needs_two_records:
  fixes fs :: "('v::linordered_idom, 's, 'm) filesystem"
  assumes view: "read_view fs db sql_path ''features_train'' = Inr df"
    and few: "length (rows df) < 2"
  shows "fst (run_training lib db sql_path outdir fs) \<noteq> None
       \<and> files (snd (run_training lib db sql_path outdir fs)) = files fs
       \<and> (set train_FEATURES \<subseteq> set (columns df) \<longrightarrow> TARGET \<in> set (columns df) \<longrightarrow>
            fst (run_training lib db sql_path outdir fs) =
              Some (ValueError_empty_train_set (length (rows df))))"
proof -
  obtain e where e: "fit_and_evaluate lib df = Inl e"
    using fit_and_evaluate_few[OF few] by blast
  have run: "run_training lib db sql_path outdir fs =
      (Some e, ensure_outdir (path_join outdir ''charts'') (ensure_outdir outdir fs))"
    by (simp add: run_training_def Let_def view e)
  have "e = ValueError_empty_train_set (length (rows df))"
    if "set train_FEATURES \<subseteq> set (columns df)" "TARGET \<in> set (columns df)"
    using fit_and_evaluate_few_columns_present[OF few that, of lib] e by simp
  then show ?thesis
    by (simp add: run)
qed

theorem training_needs_two_records_witness:
  "read_view demo_fs (demo_views demo_train_empty demo_cand) ''queries.sql'' ''features_train''
     = Inr demo_train_empty
   \<and> length (rows demo_train_empty) = 0
   \<and> fst (run_training demo_lib (demo_views demo_train_empty demo_cand) ''queries.sql''
        ''outputs'' demo_fs) = Some (ValueError_empty_train_set 0)
   \<and> files (snd (run_training demo_lib (demo_views demo_train_empty demo_cand) ''queries.sql''
        ''outputs'' demo_fs)) = files demo_fs
   \<and> read_view demo_fs (demo_views demo_train_single demo_cand) ''queries.sql'' ''features_train''
     = Inr demo_train_single
   \<and> length (rows demo_train_single) = 1
   \<and> fst (run_training demo_lib (demo_views demo_train_single demo_cand) ''queries.sql''
        ''outputs'' demo_fs) = Some (ValueError_empty_train_set 1)
   \<and> files (snd (run_training demo_lib (demo_views demo_train_single demo_cand) ''queries.sql''
        ''outputs'' demo_fs)) = files demo_fs"
proof -
  have n0: "length (rows demo_train_empty) = 0" and n1: "length (rows demo_train_single) = 1"
    by (simp_all add: demo_train_empty_def demo_train_single_def)
  have c0: "set train_FEATURES \<subseteq> set (columns demo_train_empty)"
    "TARGET \<in> set (columns demo_train_empty)"
    by (auto simp: demo_train_empty_def TARGET_def)
  have c1: "set train_FEATURES \<subseteq> set (columns demo_train_single)"
    "TARGET \<in> set (columns demo_train_single)"
    by (auto simp: demo_train_single_def TARGET_def)
  have "length (rows demo_train_empty) < 2" "length (rows demo_train_single) < 2"
    using n0 n1 by simp_all
  note t0 = training_needs_two_records[where lib = demo_lib and outdir = "''outputs''"
      and db = "demo_views demo_train_empty demo_cand", OF demo_read_view_train this(1)]
    and t1 = training_needs_two_records[where lib = demo_lib and outdir = "''outputs''"
      and db = "demo_views demo_train_single demo_cand", OF demo_read_view_train this(2)]
  show ?thesis
    using t0 t1 c0 c1 n0 n1 demo_read_view_train by simp
qed

section \<open>Training: what the fitted parameters depend on\<close>

text \<open>
  C9. In every training run that completes, the persisted pipeline is the result of fitting on
  the training partition alone: its scaler is fitted on the feature rows of the training
  partition, its regressor on those rows scaled and the training labels. The metrics written
  are computed from that pipeline's predictions on the evaluation partition, and the
  full-set predictions are computed from the same pipeline, which is the one persisted. So a
  second training view with the same training partition, whatever its evaluation partition
  holds, gives the same persisted pipeline.
\<close>

theorem training_fits_on_training_partition:
  fixes fs :: "('v::linordered_idom, 's, 'm) filesystem"
  assumes run: "run_training lib db sql_path outdir fs = (None, fs')"
    and view: "read_view fs db sql_path ''features_train'' = Inr df"
  shows "\<exists>p y_pred_test y_pred_all Xs.
           pipe_fit lib train_FEATURES (training_frame lib df) (training_labels lib df) = Inr p
         \<and> column_transformer_select train_FEATURES (training_frame lib df) = Inr Xs
         \<and> pre_scaler p = scaler_fit lib Xs
         \<and> model p = enet_fit lib (map (scaler_transform lib (pre_scaler p)) Xs)
                        (training_labels lib df)
         \<and> pipe_predict lib p (evaluation_frame lib df) = Inr y_pred_test
         \<and> files fs' (path_join outdir ''metrics.json'') =
             Some (Json [(''r2'', r2_score lib (evaluation_labels lib df) y_pred_test),
                         (''mae'', mean_absolute_error lib (evaluation_labels lib df) y_pred_test)])
         \<and> pipe_predict lib p (feature_frame df) = Inr y_pred_all
         \<and> files fs' (path_join outdir ''model.joblib'') = Some (Joblib p)
         \<and> (\<forall>db2 df2 fs2'.
               read_view fs db2 sql_path ''features_train'' = Inr df2 \<longrightarrow>
               run_training lib db2 sql_path outdir fs = (None, fs2') \<longrightarrow>
               training_frame lib df2 = training_frame lib df \<longrightarrow>
               training_labels lib df2 = training_labels lib df \<longrightarrow>
               files fs2' (path_join outdir ''model.joblib'') = Some (Joblib p))"
proof -
  from run_training_None[OF run] view
  obtain X y p metrics preds importance where
    fe: "fit_and_evaluate lib df = Inr (X, y, p, metrics)"
    and fsp: "full_set_predictions lib p df X y = Inr preds"
    and fl: "files fs' =
             (files fs)
               (path_join outdir ''metrics.json'' \<mapsto> Json metrics,
                path_join outdir ''predictions_train.csv'' \<mapsto> Csv preds,
                path_join (path_join outdir ''charts'') ''actual_vs_predicted.png'' \<mapsto> Png,
                path_join (path_join outdir ''charts'') ''residuals_hist.png'' \<mapsto> Png,
                path_join outdir ''feature_importance.csv'' \<mapsto> ImportanceCsv importance,
                path_join (path_join outdir ''charts'') ''feature_importance.png'' \<mapsto> Png,
                path_join outdir ''model.joblib'' \<mapsto> Joblib p)"
    by auto
  from fe obtain y_pred_test where
    X: "X = feature_frame df"
    and fit: "pipe_fit lib train_FEATURES (training_frame lib df) (training_labels lib df) = Inr p"
    and pt: "pipe_predict lib p (evaluation_frame lib df) = Inr y_pred_test"
    and m: "metrics = [(''r2'', r2_score lib (evaluation_labels lib df) y_pred_test),
                       (''mae'', mean_absolute_error lib (evaluation_labels lib df) y_pred_test)]"
    by (auto simp: fit_and_evaluate_Inr)
  from fsp X obtain y_pred_all where pa: "pipe_predict lib p (feature_frame df) = Inr y_pred_all"
    by (auto simp: full_set_predictions_Inr)
  from fit obtain Xs where
    sel: "column_transformer_select train_FEATURES (training_frame lib df) = Inr Xs"
    and sc: "pre_scaler p = scaler_fit lib Xs"
    and mo: "model p = enet_fit lib (map (scaler_transform lib (pre_scaler p)) Xs)
                         (training_labels lib df)"
    by (auto simp: pipe_fit_def Let_def split: sum.splits if_splits)
  have other: "files fs2' (path_join outdir ''model.joblib'') = Some (Joblib p)"
    if v2: "read_view fs db2 sql_path ''features_train'' = Inr df2"
      and r2: "run_training lib db2 sql_path outdir fs = (None, fs2')"
      and tf: "training_frame lib df2 = training_frame lib df"
      and tl: "training_labels lib df2 = training_labels lib df"
    for db2 df2 fs2'
  proof -
    from run_training_None[OF r2] v2
    obtain X2 y2 p2 metrics2 preds2 importance2 where
      fe2: "fit_and_evaluate lib df2 = Inr (X2, y2, p2, metrics2)"
      and fl2: "files fs2' =
             (files fs)
               (path_join outdir ''metrics.json'' \<mapsto> Json metrics2,
                path_join outdir ''predictions_train.csv'' \<mapsto> Csv preds2,
                path_join (path_join outdir ''charts'') ''actual_vs_predicted.png'' \<mapsto> Png,
                path_join (path_join outdir ''charts'') ''residuals_hist.png'' \<mapsto> Png,
                path_join outdir ''feature_importance.csv'' \<mapsto> ImportanceCsv importance2,
                path_join (path_join outdir ''charts'') ''feature_importance.png'' \<mapsto> Png,
                path_join outdir ''model.joblib'' \<mapsto> Joblib p2)"
      by auto
    from fe2 have "pipe_fit lib train_FEATURES (training_frame lib df2) (training_labels lib df2) = Inr p2"
      by (auto simp: fit_and_evaluate_Inr)
    with fit tf tl have "p2 = p" by simp
    with training_files(4)[OF fl2] show ?thesis by simp
  qed
  show ?thesis
    using fit sel sc mo pt pa training_files(1)[OF fl] training_files(4)[OF fl] other
    unfolding m by blast
qed

theorem training_fits_on_training_partition_witness:
  "fst (run_training demo_lib (demo_views demo_train demo_cand) ''queries.sql'' ''outputs'' demo_fs) = None
   \<and> fst (run_training demo_lib (demo_views demo_train_other_eval demo_cand) ''queries.sql'' ''outputs'' demo_fs) = None
   \<and> train_indices demo_lib 42 4 = [2, 1, 0]
   \<and> test_indices demo_lib 42 4 = [3]
   \<and> training_frame demo_lib demo_train_other_eval = training_frame demo_lib demo_train
   \<and> training_labels demo_lib demo_train_other_eval = training_labels demo_lib demo_train
   \<and> evaluation_frame demo_lib demo_train_other_eval \<noteq> evaluation_frame demo_lib demo_train
   \<and> files (snd (run_training demo_lib (demo_views demo_train demo_cand) ''queries.sql'' ''outputs'' demo_fs))
        ''outputs/model.joblib'' = Some (Joblib demo_pipe)
   \<and> files (snd (run_training demo_lib (demo_views demo_train_other_eval demo_cand) ''queries.sql'' ''outputs'' demo_fs))
        ''outputs/model.joblib'' = Some (Joblib demo_pipe)
   \<and> files (snd (run_training demo_lib (demo_views demo_train demo_cand) ''queries.sql'' ''outputs'' demo_fs))
        ''outputs/metrics.json'' = Some (Json [(''r2'', 6), (''mae'', 6)])
   \<and> files (snd (run_training demo_lib (demo_views demo_train_other_eval demo_cand) ''queries.sql'' ''outputs'' demo_fs))
        ''outputs/metrics.json'' = Some (Json [(''r2'', 402), (''mae'', 402)])"
proof -
  let ?r1 = "run_training demo_lib (demo_views demo_train demo_cand) ''queries.sql'' ''outputs'' demo_fs"
  let ?r2 = "run_training demo_lib (demo_views demo_train_other_eval demo_cand) ''queries.sql'' ''outputs'' demo_fs"
  have r1: "?r1 = (None, snd ?r1)" and r2: "?r2 = (None, snd ?r2)"
    using demo_training_run[of demo_cand] by (simp_all add: prod_eq_iff)
  have idx: "train_indices demo_lib 42 4 = [2, 1, 0]" "test_indices demo_lib 42 4 = [3]"
    by code_simp+
  have tf: "training_frame demo_lib demo_train_other_eval = training_frame demo_lib demo_train"
    by code_simp
  have tl: "training_labels demo_lib demo_train_other_eval = training_labels demo_lib demo_train"
    by code_simp
  have ef: "evaluation_frame demo_lib demo_train_other_eval \<noteq> evaluation_frame demo_lib demo_train"
    by code_simp
  have a1: "files (snd ?r1) ''outputs/model.joblib'' = Some (Joblib demo_pipe)"
    by code_simp
  have m1: "files (snd ?r1) ''outputs/metrics.json'' = Some (Json [(''r2'', 6), (''mae'', 6)])"
    by code_simp
  have m2: "files (snd ?r2) ''outputs/metrics.json'' = Some (Json [(''r2'', 402), (''mae'', 402)])"
    by code_simp
  from training_fits_on_training_partition[where db = "demo_views demo_train demo_cand",
      OF r1 demo_read_view_train]
  obtain p where
    p1: "files (snd ?r1) (path_join ''outputs'' ''model.joblib'') = Some (Joblib p)"
    and p2: "\<And>db2 df2 fs2'.
               read_view demo_fs db2 ''queries.sql'' ''features_train'' = Inr df2 \<Longrightarrow>
               run_training demo_lib db2 ''queries.sql'' ''outputs'' demo_fs = (None, fs2') \<Longrightarrow>
               training_frame demo_lib df2 = training_frame demo_lib demo_train \<Longrightarrow>
               training_labels demo_lib df2 = training_labels demo_lib demo_train \<Longrightarrow>
               files fs2' (path_join ''outputs'' ''model.joblib'') = Some (Joblib p)"
    by blast
  have "p = demo_pipe"
    using p1 a1 by (simp add: path_join_def)
  with p2[where ?db2.0 = "demo_views demo_train_other_eval demo_cand", OF demo_read_view_train r2 tf tl]
  have a2: "files (snd ?r2) ''outputs/model.joblib'' = Some (Joblib demo_pipe)"
    by (simp add: path_join_def)
  show ?thesis
    using demo_training_run[of demo_cand] idx tf tl ef a1 a2 m1 m2 by simp
qed

section \<open>Round trip through the persisted artifact\<close>

text \<open>
  C5. After a training run that completes, scoring with the persisted artifact a candidate
  view that holds the feature rows of the training view's full-set pass (and \<open>lat\<close>,
  \<open>lon\<close>) succeeds, and the predicted values it writes are the predicted values the
  training run recorded in \<open>predictions_train.csv\<close>, row by row. (The model has the
  pickled pipeline loaded back unchanged and the library routines as functions, so the values
  are equal, not only close.)
\<close>

theorem artifact_round_trip:
  fixes fs :: "('v::linordered_idom, 's, 'm) filesystem"
  assumes run: "run_training lib db sql_path outdir fs = (None, fs1)"
    and view: "read_view fs db sql_path ''features_train'' = Inr df"
    and sql': "read_text fs1 sql_path' = Inr sql_text'"
    and view': "db' sql_text' ''features_candidates'' = Inr df'"
    and same_rows: "select_columns df' score_FEATURES = select_columns df train_FEATURES"
    and coords': "{''lat'', ''lon''} \<subseteq> set (columns df')"
  shows "\<exists>P S preds.
           files fs1 (path_join outdir ''predictions_train.csv'') = Some (Csv P)
         \<and> get_column P ''predicted_profit'' = Inr preds
         \<and> length preds = length (rows df)
         \<and> fst (run_scoring lib db' sql_path' (path_join outdir ''model.joblib'') outdir' fs1) = None
         \<and> files (snd (run_scoring lib db' sql_path' (path_join outdir ''model.joblib'') outdir' fs1))
              (path_join outdir' ''scored_candidates.csv'') = Some (Csv S)
         \<and> get_column S ''predicted_profit'' = Inr preds"
proof -
  from run_training_None[OF run] view
  obtain X y p metrics preds importance where
    fe: "fit_and_evaluate lib df = Inr (X, y, p, metrics)"
    and fsp: "full_set_predictions lib p df X y = Inr preds"
    and fl: "files fs1 =
             (files fs)
               (path_join outdir ''metrics.json'' \<mapsto> Json metrics,
                path_join outdir ''predictions_train.csv'' \<mapsto> Csv preds,
                path_join (path_join outdir ''charts'') ''actual_vs_predicted.png'' \<mapsto> Png,
                path_join (path_join outdir ''charts'') ''residuals_hist.png'' \<mapsto> Png,
                path_join outdir ''feature_importance.csv'' \<mapsto> ImportanceCsv importance,
                path_join (path_join outdir ''charts'') ''feature_importance.png'' \<mapsto> Png,
                path_join outdir ''model.joblib'' \<mapsto> Joblib p)"
    by auto
  from fe have X: "X = feature_frame df" and y: "y = label_column df"
    and feats: "set train_FEATURES \<subseteq> set (columns df)"
    and fit: "pipe_fit lib train_FEATURES (training_frame lib df) (training_labels lib df) = Inr p"
    by (auto simp: fit_and_evaluate_Inr)
  have pc: "pre_columns p = train_FEATURES"
    using fit by (rule pipe_fit_pre_columns)
  from fsp obtain y_pred_all where
    pa: "pipe_predict lib p X = Inr y_pred_all"
    and ly: "length y = length (rows df)" and lp: "length y_pred_all = length (rows df)"
    and P: "preds = \<lparr>columns = [''lat'', ''lon'', ''actual_profit'', ''predicted_profit''],
                  rows = map2 (\<lambda>r v. r @ [v])
                           (map2 (\<lambda>r v. r @ [v])
                              (map (project_row (columns df) [''lat'', ''lon'']) (rows df)) y)
                           y_pred_all\<rparr>"
    by (auto simp: full_set_predictions_Inr)
  from pa have finX: "finite_features lib p X"
    by (simp add: pipe_predict_Inr)
  from pa have ne: "rows df \<noteq> []"
    and ypa: "y_pred_all =
        map (\<lambda>r. predict_row lib p (project_row (columns df) train_FEATURES r)) (rows df)"
    by (auto simp: pipe_predict_Inr X feature_frame_def pc comp_def project_row_twice)
  have colP: "get_column preds ''predicted_profit'' = Inr y_pred_all"
    unfolding P using ly lp by (rule predicted_column_of_training_table)
  have FF: "score_FEATURES = train_FEATURES"
    by (simp add: score_FEATURES_def train_FEATURES_def)
  have feats': "set score_FEATURES \<subseteq> set (columns df')"
    and rows_eq: "map (project_row (columns df') train_FEATURES) (rows df') =
                  map (project_row (columns df) train_FEATURES) (rows df)"
    using same_rows feats
    by (auto simp: select_columns_present select_columns_Inr FF)
  have ne': "rows df' \<noteq> []"
    using rows_eq ne by auto
  have art: "files fs1 (path_join outdir ''model.joblib'') = Some (Joblib p)"
    by (rule training_files(4)[OF fl])
  have compat: "set (pre_columns p) \<subseteq> set score_FEATURES"
    by (simp add: pc FF)
  have fin': "finite_features lib p df'"
    using finX rows_eq by (simp add: finite_features_def X feature_frame_def pc comp_def
        project_row_twice)
  note score = run_scoring_success[where lib = lib and outdir = outdir' and db = db',
      OF sql' view' art compat feats' coords' ne' fin']
  let ?S = "\<lparr>columns = [''lat'', ''lon'', ''predicted_profit''],
             rows = map (prediction_record lib p (columns df')) (rows df')\<rparr>"
  have "map (\<lambda>r. predict_row lib p (project_row (columns df') train_FEATURES r)) (rows df')
        = map (predict_row lib p) (map (project_row (columns df') train_FEATURES) (rows df'))"
    by (simp add: comp_def)
  also have "\<dots> = y_pred_all"
    unfolding rows_eq ypa by (simp add: comp_def)
  finally have colS: "get_column ?S ''predicted_profit'' = Inr y_pred_all"
    by (simp add: predicted_column_of_scored_table pc)
  have "files fs1 (path_join outdir ''predictions_train.csv'') = Some (Csv preds)"
    by (rule training_files(2)[OF fl])
  moreover have "fst (run_scoring lib db' sql_path' (path_join outdir ''model.joblib'') outdir' fs1) = None"
    by (simp add: score)
  moreover have "files (snd (run_scoring lib db' sql_path' (path_join outdir ''model.joblib'') outdir' fs1))
              (path_join outdir' ''scored_candidates.csv'') = Some (Csv ?S)"
    by (simp add: score files_save_csv_same)
  ultimately show ?thesis
    using colP colS lp by blast
qed

theorem artifact_round_trip_witness:
  "fst (run_training demo_lib (demo_views demo_train demo_train) ''queries.sql'' ''outputs'' demo_fs) = None
   \<and> files (snd (run_training demo_lib (demo_views demo_train demo_train) ''queries.sql'' ''outputs'' demo_fs))
        ''outputs/predictions_train.csv'' =
       Some (Csv \<lparr>columns = [''lat'', ''lon'', ''actual_profit'', ''predicted_profit''],
                  rows = [[50, 8, 100, 106], [51, 9, 120, 106], [52, 7, 90, 90],
                          [53, 6, 110, 104]]\<rparr>)
   \<and> (\<exists>P S preds.
         files (snd (run_training demo_lib (demo_views demo_train demo_train) ''queries.sql'' ''outputs'' demo_fs))
           ''outputs/predictions_train.csv'' = Some (Csv P)
       \<and> get_column P ''predicted_profit'' = Inr preds
       \<and> length preds = 4
       \<and> fst (run_scoring demo_lib (demo_views demo_train demo_train) ''queries.sql''
               ''outputs/model.joblib'' ''scores''
               (snd (run_training demo_lib (demo_views demo_train demo_train) ''queries.sql'' ''outputs'' demo_fs)))
           = None
       \<and> files (snd (run_scoring demo_lib (demo_views demo_train demo_train) ''queries.sql''
               ''outputs/model.joblib'' ''scores''
               (snd (run_training demo_lib (demo_views demo_train demo_train) ''queries.sql'' ''outputs'' demo_fs))))
             ''scores/scored_candidates.csv'' = Some (Csv S)
       \<and> get_column S ''predicted_profit'' = Inr preds)"
proof -
  let ?db = "demo_views demo_train demo_train"
  let ?r = "run_training demo_lib ?db ''queries.sql'' ''outputs'' demo_fs"
  have r: "?r = (None, snd ?r)"
    using demo_training_run(1)[of demo_train] by (simp add: prod_eq_iff)
  have sql: "read_text (snd ?r) ''queries.sql'' = Inr ''CREATE VIEW ...''"
    by code_simp
  have same: "select_columns demo_train score_FEATURES = select_columns demo_train train_FEATURES"
    by (simp add: score_FEATURES_def train_FEATURES_def)
  have coords: "{''lat'', ''lon''} \<subseteq> set (columns demo_train)"
    by (simp add: demo_train_def)
  have n: "length (rows demo_train) = 4"
    by (simp add: demo_train_def)
  have P: "files (snd ?r) ''outputs/predictions_train.csv'' =
       Some (Csv \<lparr>columns = [''lat'', ''lon'', ''actual_profit'', ''predicted_profit''],
                  rows = [[50, 8, 100, 106], [51, 9, 120, 106], [52, 7, 90, 90],
                          [53, 6, 110, 104]]\<rparr>)"
    by code_simp
  note t = artifact_round_trip[where db = ?db and db' = ?db and lib = demo_lib
      and outdir' = "''scores''", OF r demo_read_view_train sql demo_views_candidates same coords]
  show ?thesis
    using demo_training_run(1)[of demo_train] P t
    by (simp add: path_join_def n)
qed

section \<open>The feature ranking\<close>

lemma demo_lib_argsort:
  "argsort_sorts demo_lib" "argsort_stable demo_lib" "argsort_sorts demo_lib_unstable"
  by (simp_all add: argsort_sorts_def argsort_stable_def demo_lib_def demo_lib_unstable_def)

text \<open>
  C8 (amended). In every training run that completes, with an argsort that sorts, the
  feature-importance table lists every feature once with its signed coefficient, in descending
  order of the absolute coefficient. Among equal absolute coefficients the order is the one
  the argsort leaves: the declaration order of the features when the argsort is stable, which
  \<open>sort_values\<close> with its default kind does not ask for.
\<close>

theorem feature_ranking:
  fixes fs :: "('v::linordered_idom, 's, 'm) filesystem"
  assumes run: "run_training lib db sql_path outdir fs = (None, fs')"
    and sorts: "argsort_sorts lib"
  shows "\<exists>p imp.
           files fs' (path_join outdir ''model.joblib'') = Some (Joblib p)
         \<and> files fs' (path_join outdir ''feature_importance.csv'') = Some (ImportanceCsv imp)
         \<and> length (coef lib (model p)) = 13
         \<and> mset imp = mset (zip train_FEATURES (coef lib (model p)))
         \<and> sorted_wrt (\<lambda>a b. \<bar>snd b\<bar> \<le> \<bar>snd a\<bar>) imp
         \<and> (argsort_stable lib \<longrightarrow>
               sorted_wrt (\<lambda>a b. \<bar>snd b\<bar> < \<bar>snd a\<bar> \<or>
                             (\<bar>snd b\<bar> = \<bar>snd a\<bar> \<and>
                                index_of train_FEATURES (fst a) < index_of train_FEATURES (fst b)))
                 imp)"
proof -
  from run_training_None[OF run]
  obtain df X y p metrics preds imp where
    fi: "feature_importance lib (coef lib (model p)) = Inr imp"
    and fl: "files fs' =
             (files fs)
               (path_join outdir ''metrics.json'' \<mapsto> Json metrics,
                path_join outdir ''predictions_train.csv'' \<mapsto> Csv preds,
                path_join (path_join outdir ''charts'') ''actual_vs_predicted.png'' \<mapsto> Png,
                path_join (path_join outdir ''charts'') ''residuals_hist.png'' \<mapsto> Png,
                path_join outdir ''feature_importance.csv'' \<mapsto> ImportanceCsv imp,
                path_join (path_join outdir ''charts'') ''feature_importance.png'' \<mapsto> Png,
                path_join outdir ''model.joblib'' \<mapsto> Joblib p)"
    by blast
  note r = feature_importance_ranking[OF fi sorts]
  show ?thesis
    using training_files(3)[OF fl] training_files(4)[OF fl] r by blast
qed

theorem feature_ranking_witness:
  "argsort_sorts demo_lib \<and> argsort_stable demo_lib
   \<and> fst (run_training demo_lib (demo_views demo_train demo_cand) ''queries.sql'' ''outputs'' demo_fs) = None
   \<and> files (snd (run_training demo_lib (demo_views demo_train demo_cand) ''queries.sql'' ''outputs'' demo_fs))
        ''outputs/feature_importance.csv'' =
       Some (ImportanceCsv
         [(''foot_traffic'', - 3), (''rent_per_sqm'', 2), (''office_density'', - 2),
          (''events_per_month'', - 2), (''demand_adj'', - 2), (''promo_comp_adj'', - 2),
          (''median_income'', 1), (''coffee_price'', 1), (''wknd_traffic'', 1),
          (''competition'', 0), (''weekend_activity'', 0), (''promo_spend'', 0),
          (''price_income'', 0)])
   \<and> (\<exists>p imp.
         files (snd (run_training demo_lib (demo_views demo_train demo_cand) ''queries.sql'' ''outputs'' demo_fs))
           ''outputs/model.joblib'' = Some (Joblib p)
       \<and> files (snd (run_training demo_lib (demo_views demo_train demo_cand) ''queries.sql'' ''outputs'' demo_fs))
           ''outputs/feature_importance.csv'' = Some (ImportanceCsv imp)
       \<and> mset imp = mset (zip train_FEATURES (coef demo_lib (model p)))
       \<and> sorted_wrt (\<lambda>a b. \<bar>snd b\<bar> \<le> \<bar>snd a\<bar>) imp
       \<and> sorted_wrt (\<lambda>a b. \<bar>snd b\<bar> < \<bar>snd a\<bar> \<or>
                       (\<bar>snd b\<bar> = \<bar>snd a\<bar> \<and>
                          index_of train_FEATURES (fst a) < index_of train_FEATURES (fst b)))
           imp)"
proof -
  let ?r = "run_training demo_lib (demo_views demo_train demo_cand) ''queries.sql'' ''outputs'' demo_fs"
  have r: "?r = (None, snd ?r)"
    using demo_training_run(1)[of demo_cand] by (simp add: prod_eq_iff)
  have v: "files (snd ?r) ''outputs/feature_importance.csv'' =
       Some (ImportanceCsv
         [(''foot_traffic'', - 3), (''rent_per_sqm'', 2), (''office_density'', - 2),
          (''events_per_month'', - 2), (''demand_adj'', - 2), (''promo_comp_adj'', - 2),
          (''median_income'', 1), (''coffee_price'', 1), (''wknd_traffic'', 1),
          (''competition'', 0), (''weekend_activity'', 0), (''promo_spend'', 0),
          (''price_income'', 0)])"
    by code_simp
  note t = feature_ranking[OF r demo_lib_argsort(1)]
  show ?thesis
    using demo_lib_argsort(1,2) demo_training_run(1)[of demo_cand] v t
    unfolding path_join_def by auto
qed

text \<open>
  C8 as stated fails in its tie rule: with an argsort that sorts correctly and is not stable,
  the run lists \<open>promo_comp_adj\<close> (declared last, coefficient \<open>-2\<close>) before
  \<open>rent_per_sqm\<close> (declared second, coefficient \<open>2\<close>).
\<close>

theorem feature_ranking_ties_counterexample:
  "argsort_sorts demo_lib_unstable
   \<and> fst (run_training demo_lib_unstable (demo_views demo_train demo_cand) ''queries.sql''
        ''outputs'' demo_fs) = None
   \<and> files (snd (run_training demo_lib_unstable (demo_views demo_train demo_cand) ''queries.sql''
        ''outputs'' demo_fs)) ''outputs/feature_importance.csv'' =
       Some (ImportanceCsv
         [(''foot_traffic'', - 3), (''promo_comp_adj'', - 2), (''demand_adj'', - 2),
          (''events_per_month'', - 2), (''office_density'', - 2), (''rent_per_sqm'', 2),
          (''wknd_traffic'', 1), (''coffee_price'', 1), (''median_income'', 1),
          (''price_income'', 0), (''promo_spend'', 0), (''weekend_activity'', 0),
          (''competition'', 0)])
   \<and> \<bar>- 2 :: int\<bar> = \<bar>2\<bar>
   \<and> index_of train_FEATURES ''rent_per_sqm'' < index_of train_FEATURES ''promo_comp_adj''"
proof -
  have "fst (run_training demo_lib_unstable (demo_views demo_train demo_cand) ''queries.sql''
        ''outputs'' demo_fs) = None"
    by code_simp
  moreover have "files (snd (run_training demo_lib_unstable (demo_views demo_train demo_cand) ''queries.sql''
        ''outputs'' demo_fs)) ''outputs/feature_importance.csv'' =
       Some (ImportanceCsv
         [(''foot_traffic'', - 3), (''promo_comp_adj'', - 2), (''demand_adj'', - 2),
          (''events_per_month'', - 2), (''office_density'', - 2), (''rent_per_sqm'', 2),
          (''wknd_traffic'', 1), (''coffee_price'', 1), (''median_income'', 1),
          (''price_income'', 0), (''promo_spend'', 0), (''weekend_activity'', 0),
          (''competition'', 0)])"
    by code_simp
  moreover have "index_of train_FEATURES ''rent_per_sqm'' < index_of train_FEATURES ''promo_comp_adj''"
    by code_simp
  ultimately show ?thesis
    using demo_lib_argsort(3) by simp
qed

end
